theory Spec2Isabelle
  imports Main
begin

section \<open>Project credential handlers of kubesphere/devops\<close>

text \<open>
  The handlers of package \<^verbatim>\<open>projects\<close> (create, delete, update, get and list
  project credentials) are embedded as functions from the service they run on, the
  HTTP request and the state of the outside world to the response they write, the
  sequence of calls they make on their collaborators, and the state they leave.
  The collaborators (JSON decoding, the role check, the Jenkins client, the
  relational store, the formatting helpers) are not part of the handlers: they are
  the fields of the service record, and every theorem that mentions a service
  \<open>s\<close> holds for all of them.
\<close>

subsection \<open>Errors and HTTP status codes\<close>

text \<open>
  Go errors are values. The sentinels are the ones of \<^verbatim>\<open>pkg/db/error.go\<close>;
  \<open>Errorf\<close> is an error built by \<^verbatim>\<open>fmt.Errorf\<close> (or by a collaborator) that
  carries its message.
\<close>

datatype error =
    ErrNotFound
  | ErrNotSupported
  | ErrTableNotSpecified
  | ErrColumnNotSpecified
  | ErrInvalidPointer
  | ErrPlaceholderCount
  | ErrInvalidSliceLength
  | ErrCantConvertToTime
  | ErrInvalidTimestring
  | Errorf string

definition StatusOK :: int where "StatusOK = 200"
definition StatusBadRequest :: int where "StatusBadRequest = 400"
definition StatusForbidden :: int where "StatusForbidden = 403"
definition StatusNotFound :: int where "StatusNotFound = 404"
definition StatusConflict :: int where "StatusConflict = 409"
definition StatusInternalServerError :: int where "StatusInternalServerError = 500"

subsection \<open>Data model\<close>

definition CredentialTypeUsernamePassword :: string where
  "CredentialTypeUsernamePassword = ''username_password''"
definition CredentialTypeSsh :: string where
  "CredentialTypeSsh = ''ssh''"
definition CredentialTypeSecretText :: string where
  "CredentialTypeSecretText = ''secret_text''"
definition CredentialTypeKubeConfig :: string where
  "CredentialTypeKubeConfig = ''kubeconfig''"

text \<open>A decoded JSON value; \<^verbatim>\<open>map[string]interface{}\<close> is a map from keys to such values.\<close>

datatype json =
    JNull
  | JBool bool
  | JNumber int
  | JString string
  | JArray "json list"
  | JObject "(string \<times> json) list"

type_synonym content = "string \<rightharpoonup> json"

record CredentialRequest =
  req_Type :: string
  req_Domain :: string
  req_Content :: content

record UsernamePasswordCredentialRequest =
  up_Id :: string
  up_Username :: string
  up_Password :: string
  up_Description :: string

record SshCredentialRequest =
  ssh_Id :: string
  ssh_Username :: string
  ssh_Passphrase :: string
  ssh_PrivateKey :: string
  ssh_Description :: string

record SecretTextCredentialRequest =
  st_Id :: string
  st_Secret :: string
  st_Description :: string

record KubeconfigCredentialRequest =
  kc_Id :: string
  kc_Content :: string
  kc_Description :: string

record DeleteCredentialRequest =
  del_Domain :: string

text \<open>The zero values that \<^verbatim>\<open>&T{}\<close> allocates.\<close>

definition new_UsernamePasswordCredentialRequest :: UsernamePasswordCredentialRequest where
  "new_UsernamePasswordCredentialRequest =
     \<lparr>up_Id = [], up_Username = [], up_Password = [], up_Description = []\<rparr>"

definition new_SshCredentialRequest :: SshCredentialRequest where
  "new_SshCredentialRequest =
     \<lparr>ssh_Id = [], ssh_Username = [], ssh_Passphrase = [], ssh_PrivateKey = [],
      ssh_Description = []\<rparr>"

definition new_SecretTextCredentialRequest :: SecretTextCredentialRequest where
  "new_SecretTextCredentialRequest = \<lparr>st_Id = [], st_Secret = [], st_Description = []\<rparr>"

definition new_KubeconfigCredentialRequest :: KubeconfigCredentialRequest where
  "new_KubeconfigCredentialRequest = \<lparr>kc_Id = [], kc_Content = [], kc_Description = []\<rparr>"

text \<open>\<^verbatim>\<open>gojenkins.CredentialResponse\<close>: what the remote API returns for one credential.\<close>

record gojenkins_CredentialResponse =
  jc_Id :: string
  jc_TypeName :: string
  jc_Fingerprint :: string
  jc_Description :: string
  jc_Domain :: string

record FingerprintUsage =
  fu_Name :: string
  fu_Ranges :: "(int \<times> int) list"

record Fingerprint =
  fp_FileName :: string
  fp_Hash :: string
  fp_Usage :: "FingerprintUsage list"

text \<open>\<^verbatim>\<open>projects.CredentialResponse\<close>: what the get and list handlers answer.\<close>

record CredentialResponse =
  cr_Id :: string
  cr_Type :: string
  cr_DisplayName :: string
  cr_Fingerprint :: "Fingerprint option"
  cr_Description :: string
  cr_Domain :: string
  cr_CreateTime :: "int option"
  cr_Creator :: string
  cr_Content :: content

text \<open>
  Modelled from the spec: \<^verbatim>\<open>models.ProjectCredential\<close> is declared outside the files
  at hand. The data model gives the ownership row as (project id, credential id,
  domain, creator, create time). A time is a number of ticks, the zero time being 0.
\<close>

record ProjectCredential =
  pc_ProjectId :: string
  pc_CredentialId :: string
  pc_Domain :: string
  pc_Creator :: string
  pc_CreateTime :: int

definition new_ProjectCredential :: ProjectCredential where
  "new_ProjectCredential =
     \<lparr>pc_ProjectId = [], pc_CredentialId = [], pc_Domain = [], pc_Creator = [],
      pc_CreateTime = 0\<rparr>"

text \<open>
  Modelled from the spec: the role names \<^verbatim>\<open>ProjectOwner\<close> and \<^verbatim>\<open>ProjectMaintainer\<close>
  are constants declared outside the files at hand; the spec calls the two roles
  owner and maintainer.
\<close>

definition ProjectOwner :: string where "ProjectOwner = ''owner''"
definition ProjectMaintainer :: string where "ProjectMaintainer = ''maintainer''"

subsection \<open>Requests and responses\<close>

record Request =
  PathParams :: "(string \<times> string) list"
  Query :: "(string \<times> string) list"
  Header :: "(string \<times> string) list"
  Body :: string

text \<open>Indexing a Go map with a missing key, and \<^verbatim>\<open>url.Values.Get\<close>, give the empty string.\<close>

definition PathParam :: "Request \<Rightarrow> string \<Rightarrow> string" where
  "PathParam r k = (case map_of (PathParams r) k of None \<Rightarrow> [] | Some v \<Rightarrow> v)"

definition QueryGet :: "Request \<Rightarrow> string \<Rightarrow> string" where
  "QueryGet r k = (case map_of (Query r) k of None \<Rightarrow> [] | Some v \<Rightarrow> v)"

text \<open>
  What a handler leaves in the response writer. \<^verbatim>\<open>rest.Error(w, err.Error(), code)\<close>
  is \<open>RestError err code\<close>; \<^verbatim>\<open>w.WriteJson\<close> of the id structure, of one credential
  and of the list are the next three. \<open>Panic\<close> is a nil pointer dereference: the
  handler writes nothing itself.
\<close>

datatype response =
    RestError error int
  | WriteJsonId string
  | WriteJsonCredential CredentialResponse
  | WriteJsonCredentials "CredentialResponse list"
  | Panic

fun StatusCode :: "response \<Rightarrow> int option" where
  "StatusCode (RestError err code) = Some code"
| "StatusCode (WriteJsonId i) = Some StatusOK"
| "StatusCode (WriteJsonCredential c) = Some StatusOK"
| "StatusCode (WriteJsonCredentials cs) = Some StatusOK"
| "StatusCode Panic = None"

subsection \<open>The relational store's query conditions\<close>

datatype column = ProjectIdColumn | ProjectCredentialIdColumn | ProjectCredentialDomainColumn

datatype Builder = Eq column string | And "Builder list"

text \<open>\<^verbatim>\<open>govalidator.IsNull\<close>: the string has length zero.\<close>

definition IsNull :: "string \<Rightarrow> bool" where
  "IsNull str = (length str = 0)"

subsection \<open>The calls a handler makes\<close>

datatype jenkins_call =
    CallGetCredentialInFolder string string string
  | CallGetCredentialsInFolder string string
  | CallGetCredentialContentInFolder string string string
  | CallCreateUsernamePasswordCredentialInFolder string string string string string string
  | CallCreateSshCredentialInFolder string string string string string string string
  | CallCreateSecretTextCredentialInFolder string string string string string
  | CallCreateKubeconfigCredentialInFolder string string string string string
  | CallUpdateUsernamePasswordCredentialInFolder string string string string string string
  | CallUpdateSshCredentialInFolder string string string string string string string
  | CallUpdateSecretTextCredentialInFolder string string string string string
  | CallUpdateKubeconfigCredentialInFolder string string string string string
  | CallDeleteCredentialInFolder string string string

datatype db_call =
    CallInsertInto ProjectCredential
  | CallDeleteFrom Builder
  | CallLoadOne Builder
  | CallLoad Builder

text \<open>
  One entry per call on a collaborator, in the order the handler makes them, with the
  error the call returned (\<open>None\<close> is Go's \<^verbatim>\<open>nil\<close>). A Jenkins entry also records
  whether the call returned a non-nil value.
\<close>

datatype event =
    DecodeJsonPayload "error option"
  | CheckProjectUserInRole string string "string list" "error option"
  | MapstructureDecode "error option"
  | Jenkins jenkins_call bool "error option"
  | Db db_call "error option"

record 'w result =
  answer :: response
  trace :: "event list"
  world :: 'w

definition reply :: "response \<Rightarrow> 'w \<Rightarrow> 'w result" where
  "reply resp w = \<lparr>answer = resp, trace = [], world = w\<rparr>"

definition after :: "event \<Rightarrow> 'w result \<Rightarrow> 'w result" where
  "after ev res = res\<lparr>trace := ev # trace res\<rparr>"

text \<open>
  \<^verbatim>\<open>w.WriteJson(struct{Id string}{Id: *id})\<close>: dereferencing a nil pointer panics.
\<close>

definition WriteJson_Id :: "string option \<Rightarrow> 'w \<Rightarrow> 'w result" where
  "WriteJson_Id id' w = (case id' of None \<Rightarrow> reply Panic w | Some i \<Rightarrow> reply (WriteJsonId i) w)"

fun error_of :: "error + 'a \<Rightarrow> error option" where
  "error_of (Inl err) = Some err"
| "error_of (Inr v) = None"

fun non_nil :: "'a option \<Rightarrow> bool" where
  "non_nil None = False"
| "non_nil (Some v) = True"

text \<open>
  A parsed HTML document, as far as the get handler looks at it: what \<^verbatim>\<open>Find\<close>
  selects for a selector, each selection with its text and its attributes.
\<close>

record Selection =
  sel_Text :: string
  sel_Attr :: "(string \<times> string) list"

type_synonym Document = "string \<Rightarrow> Selection list"

subsection \<open>The service\<close>

text \<open>
  Everything the handlers call and the files at hand do not define, as the fields of
  the receiver \<^verbatim>\<open>s *ProjectService\<close>. \<open>'w\<close> is the state of the world outside the
  handler (the remote Jenkins and the relational store). A read returns its result; a
  write returns its result and the new state. A Go pair \<^verbatim>\<open>(*T, error)\<close> is a pair of
  options, since nothing in the handlers' types forces exactly one to be nil.
  \<^verbatim>\<open>mapstructure.Decode\<close> decodes into the structure it is given, so it takes that
  structure. \<^verbatim>\<open>LoadOne\<close> returns the row it loaded or the error, in which case the
  destination is as the handler allocated it.
\<close>

record 'w ProjectService =
  GetUserNameFromRequest :: "Request \<Rightarrow> string"
  DecodeCredentialRequest :: "Request \<Rightarrow> error + CredentialRequest"
  DecodeDeleteCredentialRequest :: "Request \<Rightarrow> error + DeleteCredentialRequest"
  DecodeUsernamePassword ::
    "content \<Rightarrow> UsernamePasswordCredentialRequest \<Rightarrow> error + UsernamePasswordCredentialRequest"
  DecodeSsh :: "content \<Rightarrow> SshCredentialRequest \<Rightarrow> error + SshCredentialRequest"
  DecodeSecretText ::
    "content \<Rightarrow> SecretTextCredentialRequest \<Rightarrow> error + SecretTextCredentialRequest"
  DecodeKubeconfig ::
    "content \<Rightarrow> KubeconfigCredentialRequest \<Rightarrow> error + KubeconfigCredentialRequest"
  checkProjectUserInRole :: "string \<Rightarrow> string \<Rightarrow> string list \<Rightarrow> 'w \<Rightarrow> error option"
  GetJenkinsStatusCode :: "error \<Rightarrow> int"
  CredentialTypeMap :: "string \<rightharpoonup> string"
  NewProjectCredential :: "string \<Rightarrow> string \<Rightarrow> string \<Rightarrow> string \<Rightarrow> 'w \<Rightarrow> ProjectCredential"
  formatCredentialResponse ::
    "gojenkins_CredentialResponse \<Rightarrow> ProjectCredential \<Rightarrow> CredentialResponse"
  formatCredentialsResponse ::
    "gojenkins_CredentialResponse list \<Rightarrow> ProjectCredential list \<Rightarrow> CredentialResponse list"
  NewDocumentFromReader :: "string \<Rightarrow> error + Document"
  GetCredentialInFolder ::
    "string \<Rightarrow> string \<Rightarrow> string \<Rightarrow> 'w \<Rightarrow> gojenkins_CredentialResponse option \<times> error option"
  GetCredentialsInFolder ::
    "string \<Rightarrow> string \<Rightarrow> 'w \<Rightarrow> gojenkins_CredentialResponse list \<times> error option"
  GetCredentialContentInFolder :: "string \<Rightarrow> string \<Rightarrow> string \<Rightarrow> 'w \<Rightarrow> string \<times> error option"
  CreateUsernamePasswordCredentialInFolder ::
    "string \<Rightarrow> string \<Rightarrow> string \<Rightarrow> string \<Rightarrow> string \<Rightarrow> string \<Rightarrow> 'w
      \<Rightarrow> (string option \<times> error option) \<times> 'w"
  CreateSshCredentialInFolder ::
    "string \<Rightarrow> string \<Rightarrow> string \<Rightarrow> string \<Rightarrow> string \<Rightarrow> string \<Rightarrow> string \<Rightarrow> 'w
      \<Rightarrow> (string option \<times> error option) \<times> 'w"
  CreateSecretTextCredentialInFolder ::
    "string \<Rightarrow> string \<Rightarrow> string \<Rightarrow> string \<Rightarrow> string \<Rightarrow> 'w
      \<Rightarrow> (string option \<times> error option) \<times> 'w"
  CreateKubeconfigCredentialInFolder ::
    "string \<Rightarrow> string \<Rightarrow> string \<Rightarrow> string \<Rightarrow> string \<Rightarrow> 'w
      \<Rightarrow> (string option \<times> error option) \<times> 'w"
  UpdateUsernamePasswordCredentialInFolder ::
    "string \<Rightarrow> string \<Rightarrow> string \<Rightarrow> string \<Rightarrow> string \<Rightarrow> string \<Rightarrow> 'w
      \<Rightarrow> (string option \<times> error option) \<times> 'w"
  UpdateSshCredentialInFolder ::
    "string \<Rightarrow> string \<Rightarrow> string \<Rightarrow> string \<Rightarrow> string \<Rightarrow> string \<Rightarrow> string \<Rightarrow> 'w
      \<Rightarrow> (string option \<times> error option) \<times> 'w"
  UpdateSecretTextCredentialInFolder ::
    "string \<Rightarrow> string \<Rightarrow> string \<Rightarrow> string \<Rightarrow> string \<Rightarrow> 'w
      \<Rightarrow> (string option \<times> error option) \<times> 'w"
  UpdateKubeconfigCredentialInFolder ::
    "string \<Rightarrow> string \<Rightarrow> string \<Rightarrow> string \<Rightarrow> string \<Rightarrow> 'w
      \<Rightarrow> (string option \<times> error option) \<times> 'w"
  DeleteCredentialInFolder ::
    "string \<Rightarrow> string \<Rightarrow> string \<Rightarrow> 'w \<Rightarrow> (string option \<times> error option) \<times> 'w"
  InsertInto :: "ProjectCredential \<Rightarrow> 'w \<Rightarrow> error option \<times> 'w"
  DeleteFrom :: "Builder \<Rightarrow> 'w \<Rightarrow> error option \<times> 'w"
  LoadOne :: "Builder \<Rightarrow> 'w \<Rightarrow> error + ProjectCredential"
  Load :: "Builder \<Rightarrow> 'w \<Rightarrow> ProjectCredential list \<times> error option"

subsection \<open>CreateCredentialHandler\<close>

text \<open>
  The four cases of the type switch share two blocks of text, word for word up to the
  name of the decoded payload. The first is the existence check (lines 155-166,
  198-209, 243-254, 287-299): a credential found is a conflict; an error whose status
  is not 404 is a bad request; otherwise the case goes on with \<open>continue\<close>.
\<close>

definition existence_check ::
  "'w ProjectService \<Rightarrow> string \<Rightarrow> string \<Rightarrow> string \<Rightarrow> 'w \<Rightarrow> 'w result \<Rightarrow> 'w result" where
  "existence_check s domain id' projectId w continue =
     (case GetCredentialInFolder s domain id' projectId w of
        (credential, err) \<Rightarrow>
          after (Jenkins (CallGetCredentialInFolder domain id' projectId) (non_nil credential) err)
            (case credential of
               Some c \<Rightarrow>
                 reply (RestError (Errorf (''credential id ['' @ jc_Id c @ ''] has been used''))
                   StatusConflict) w
             | None \<Rightarrow>
                 (case err of
                    None \<Rightarrow> continue
                  | Some e \<Rightarrow>
                      if GetJenkinsStatusCode s e \<noteq> StatusNotFound
                      then reply (RestError e StatusBadRequest) w
                      else continue)))"

text \<open>
  The second is what follows the creation call (lines 169-187, 213-232, 258-277,
  303-322): its error is answered with its own status; otherwise the ownership row is
  built and inserted, an insertion error is answered with its status, and the id the
  creation returned is written.
\<close>

definition record_ownership ::
  "'w ProjectService \<Rightarrow> string \<Rightarrow> string \<Rightarrow> string \<Rightarrow> string \<Rightarrow> string option \<Rightarrow> error option
     \<Rightarrow> 'w \<Rightarrow> 'w result" where
  "record_ownership s projectId id' domain operator credentialId err w1 =
     (case err of
        Some e \<Rightarrow> reply (RestError e (GetJenkinsStatusCode s e)) w1
      | None \<Rightarrow>
          (let projectCredential = NewProjectCredential s projectId id' domain operator w1
           in case InsertInto s projectCredential w1 of
                (err, w2) \<Rightarrow>
                  after (Db (CallInsertInto projectCredential) err)
                    (case err of
                       Some e \<Rightarrow> reply (RestError e (GetJenkinsStatusCode s e)) w2
                     | None \<Rightarrow> WriteJson_Id credentialId w2)))"

definition Create_UsernamePassword ::
  "'w ProjectService \<Rightarrow> CredentialRequest \<Rightarrow> string \<Rightarrow> string \<Rightarrow> 'w \<Rightarrow> 'w result" where
  "Create_UsernamePassword s request projectId operator w =
     (case DecodeUsernamePassword s (req_Content request) new_UsernamePasswordCredentialRequest of
        Inl err \<Rightarrow> after (MapstructureDecode (Some err)) (reply (RestError err StatusBadRequest) w)
      | Inr UPRequest \<Rightarrow>
          after (MapstructureDecode None)
            (existence_check s (req_Domain request) (up_Id UPRequest) projectId w
               (case CreateUsernamePasswordCredentialInFolder s (req_Domain request)
                       (up_Id UPRequest) (up_Username UPRequest) (up_Password UPRequest)
                       (up_Description UPRequest) projectId w of
                  ((credentialId, err), w1) \<Rightarrow>
                    after (Jenkins (CallCreateUsernamePasswordCredentialInFolder
                             (req_Domain request) (up_Id UPRequest) (up_Username UPRequest)
                             (up_Password UPRequest) (up_Description UPRequest) projectId)
                           (non_nil credentialId) err)
                      (record_ownership s projectId (up_Id UPRequest) (req_Domain request)
                         operator credentialId err w1))))"

definition Create_Ssh ::
  "'w ProjectService \<Rightarrow> CredentialRequest \<Rightarrow> string \<Rightarrow> string \<Rightarrow> 'w \<Rightarrow> 'w result" where
  "Create_Ssh s request projectId operator w =
     (case DecodeSsh s (req_Content request) new_SshCredentialRequest of
        Inl err \<Rightarrow> after (MapstructureDecode (Some err)) (reply (RestError err StatusBadRequest) w)
      | Inr SshRequest \<Rightarrow>
          after (MapstructureDecode None)
            (existence_check s (req_Domain request) (ssh_Id SshRequest) projectId w
               (case CreateSshCredentialInFolder s (req_Domain request) (ssh_Id SshRequest)
                       (ssh_Username SshRequest) (ssh_Passphrase SshRequest)
                       (ssh_PrivateKey SshRequest) (ssh_Description SshRequest) projectId w of
                  ((credentialId, err), w1) \<Rightarrow>
                    after (Jenkins (CallCreateSshCredentialInFolder (req_Domain request)
                             (ssh_Id SshRequest) (ssh_Username SshRequest)
                             (ssh_Passphrase SshRequest) (ssh_PrivateKey SshRequest)
                             (ssh_Description SshRequest) projectId)
                           (non_nil credentialId) err)
                      (record_ownership s projectId (ssh_Id SshRequest) (req_Domain request)
                         operator credentialId err w1))))"

definition Create_SecretText ::
  "'w ProjectService \<Rightarrow> CredentialRequest \<Rightarrow> string \<Rightarrow> string \<Rightarrow> 'w \<Rightarrow> 'w result" where
  "Create_SecretText s request projectId operator w =
     (case DecodeSecretText s (req_Content request) new_SecretTextCredentialRequest of
        Inl err \<Rightarrow> after (MapstructureDecode (Some err)) (reply (RestError err StatusBadRequest) w)
      | Inr TextRequest \<Rightarrow>
          after (MapstructureDecode None)
            (existence_check s (req_Domain request) (st_Id TextRequest) projectId w
               (case CreateSecretTextCredentialInFolder s (req_Domain request)
                       (st_Id TextRequest) (st_Secret TextRequest) (st_Description TextRequest)
                       projectId w of
                  ((credentialId, err), w1) \<Rightarrow>
                    after (Jenkins (CallCreateSecretTextCredentialInFolder (req_Domain request)
                             (st_Id TextRequest) (st_Secret TextRequest)
                             (st_Description TextRequest) projectId)
                           (non_nil credentialId) err)
                      (record_ownership s projectId (st_Id TextRequest) (req_Domain request)
                         operator credentialId err w1))))"

definition Create_Kubeconfig ::
  "'w ProjectService \<Rightarrow> CredentialRequest \<Rightarrow> string \<Rightarrow> string \<Rightarrow> 'w \<Rightarrow> 'w result" where
  "Create_Kubeconfig s request projectId operator w =
     (case DecodeKubeconfig s (req_Content request) new_KubeconfigCredentialRequest of
        Inl err \<Rightarrow> after (MapstructureDecode (Some err)) (reply (RestError err StatusBadRequest) w)
      | Inr KubeconfigRequest \<Rightarrow>
          after (MapstructureDecode None)
            (existence_check s (req_Domain request) (kc_Id KubeconfigRequest) projectId w
               (case CreateKubeconfigCredentialInFolder s (req_Domain request)
                       (kc_Id KubeconfigRequest) (kc_Content KubeconfigRequest)
                       (kc_Description KubeconfigRequest) projectId w of
                  ((credentialId, err), w1) \<Rightarrow>
                    after (Jenkins (CallCreateKubeconfigCredentialInFolder (req_Domain request)
                             (kc_Id KubeconfigRequest) (kc_Content KubeconfigRequest)
                             (kc_Description KubeconfigRequest) projectId)
                           (non_nil credentialId) err)
                      (record_ownership s projectId (kc_Id KubeconfigRequest)
                         (req_Domain request) operator credentialId err w1))))"

definition CreateCredentialHandler :: "'w ProjectService \<Rightarrow> Request \<Rightarrow> 'w \<Rightarrow> 'w result" where
  "CreateCredentialHandler s r w =
     (let projectId = PathParam r ''id'';
          operator = GetUserNameFromRequest s r
      in case DecodeCredentialRequest s r of
           Inl err \<Rightarrow>
             after (DecodeJsonPayload (Some err)) (reply (RestError err StatusBadRequest) w)
         | Inr request \<Rightarrow>
             after (DecodeJsonPayload None)
               (let err = checkProjectUserInRole s operator projectId
                            [ProjectOwner, ProjectMaintainer] w
                in after (CheckProjectUserInRole operator projectId
                            [ProjectOwner, ProjectMaintainer] err)
                     (case err of
                        Some e \<Rightarrow> reply (RestError e StatusForbidden) w
                      | None \<Rightarrow>
                          if req_Type request = CredentialTypeUsernamePassword
                          then Create_UsernamePassword s request projectId operator w
                          else if req_Type request = CredentialTypeSsh
                          then Create_Ssh s request projectId operator w
                          else if req_Type request = CredentialTypeSecretText
                          then Create_SecretText s request projectId operator w
                          else if req_Type request = CredentialTypeKubeConfig
                          then Create_Kubeconfig s request projectId operator w
                          else reply (RestError (Errorf ''error unsupport  credential type'')
                                 (GetJenkinsStatusCode s
                                    (Errorf ''error unsupport  credential type''))) w)))"

subsection \<open>DeleteCredentialHandler\<close>

definition DeleteCredentialHandler :: "'w ProjectService \<Rightarrow> Request \<Rightarrow> 'w \<Rightarrow> 'w result" where
  "DeleteCredentialHandler s r w =
     (let projectId = PathParam r ''id'';
          credentialId = PathParam r ''cid'';
          operator = GetUserNameFromRequest s r
      in case DecodeDeleteCredentialRequest s r of
           Inl err \<Rightarrow>
             after (DecodeJsonPayload (Some err)) (reply (RestError err StatusBadRequest) w)
         | Inr request \<Rightarrow>
             after (DecodeJsonPayload None)
               (let err = checkProjectUserInRole s operator projectId
                            [ProjectOwner, ProjectMaintainer] w
                in after (CheckProjectUserInRole operator projectId
                            [ProjectOwner, ProjectMaintainer] err)
                     (case err of
                        Some e \<Rightarrow> reply (RestError e StatusForbidden) w
                      | None \<Rightarrow>
                          (case DeleteCredentialInFolder s (del_Domain request) credentialId
                                  projectId w of
                             ((id', err), w1) \<Rightarrow>
                               after (Jenkins (CallDeleteCredentialInFolder (del_Domain request)
                                        credentialId projectId) (non_nil id') err)
                                 (case err of
                                    Some e \<Rightarrow> reply (RestError e (GetJenkinsStatusCode s e)) w1
                                  | None \<Rightarrow>
                                      (let deleteConditions =
                                             [Eq ProjectIdColumn projectId,
                                              Eq ProjectCredentialIdColumn credentialId]
                                             @ (if \<not> IsNull (del_Domain request)
                                                then [Eq ProjectCredentialDomainColumn
                                                        (del_Domain request)]
                                                else [Eq ProjectCredentialDomainColumn ''_''])
                                       in case DeleteFrom s (And deleteConditions) w1 of
                                            (err, w2) \<Rightarrow>
                                              after (Db (CallDeleteFrom (And deleteConditions)) err)
                                                (case err of
                                                   None \<Rightarrow> WriteJson_Id id' w2
                                                 | Some e \<Rightarrow>
                                                     if e \<noteq> ErrNotFound
                                                     then reply (RestError e
                                                            (GetJenkinsStatusCode s e)) w2
                                                     else WriteJson_Id id' w2)))))))"

subsection \<open>UpdateCredentialHandler\<close>

definition Update_UsernamePassword ::
  "'w ProjectService \<Rightarrow> CredentialRequest \<Rightarrow> string \<Rightarrow> string \<Rightarrow> 'w \<Rightarrow> 'w result" where
  "Update_UsernamePassword s request projectId credentialId w =
     (case DecodeUsernamePassword s (req_Content request)
             (new_UsernamePasswordCredentialRequest\<lparr>up_Id := credentialId\<rparr>) of
        Inl err \<Rightarrow> after (MapstructureDecode (Some err)) (reply (RestError err StatusBadRequest) w)
      | Inr UPRequest \<Rightarrow>
          after (MapstructureDecode None)
            (case UpdateUsernamePasswordCredentialInFolder s (req_Domain request)
                    (up_Id UPRequest) (up_Username UPRequest) (up_Password UPRequest)
                    (up_Description UPRequest) projectId w of
               ((credentialId, err), w1) \<Rightarrow>
                 after (Jenkins (CallUpdateUsernamePasswordCredentialInFolder
                          (req_Domain request) (up_Id UPRequest) (up_Username UPRequest)
                          (up_Password UPRequest) (up_Description UPRequest) projectId)
                        (non_nil credentialId) err)
                   (case err of
                      Some e \<Rightarrow> reply (RestError e (GetJenkinsStatusCode s e)) w1
                    | None \<Rightarrow> WriteJson_Id credentialId w1)))"

definition Update_Ssh ::
  "'w ProjectService \<Rightarrow> CredentialRequest \<Rightarrow> string \<Rightarrow> string \<Rightarrow> 'w \<Rightarrow> 'w result" where
  "Update_Ssh s request projectId credentialId w =
     (case DecodeSsh s (req_Content request) (new_SshCredentialRequest\<lparr>ssh_Id := credentialId\<rparr>) of
        Inl err \<Rightarrow> after (MapstructureDecode (Some err)) (reply (RestError err StatusBadRequest) w)
      | Inr SshRequest \<Rightarrow>
          after (MapstructureDecode None)
            (case UpdateSshCredentialInFolder s (req_Domain request) (ssh_Id SshRequest)
                    (ssh_Username SshRequest) (ssh_Passphrase SshRequest)
                    (ssh_PrivateKey SshRequest) (ssh_Description SshRequest) projectId w of
               ((credentialId, err), w1) \<Rightarrow>
                 after (Jenkins (CallUpdateSshCredentialInFolder (req_Domain request)
                          (ssh_Id SshRequest) (ssh_Username SshRequest)
                          (ssh_Passphrase SshRequest) (ssh_PrivateKey SshRequest)
                          (ssh_Description SshRequest) projectId)
                        (non_nil credentialId) err)
                   (case err of
                      Some e \<Rightarrow> reply (RestError e StatusInternalServerError) w1
                    | None \<Rightarrow> WriteJson_Id credentialId w1)))"

definition Update_SecretText ::
  "'w ProjectService \<Rightarrow> CredentialRequest \<Rightarrow> string \<Rightarrow> string \<Rightarrow> 'w \<Rightarrow> 'w result" where
  "Update_SecretText s request projectId credentialId w =
     (case DecodeSecretText s (req_Content request)
             (new_SecretTextCredentialRequest\<lparr>st_Id := credentialId\<rparr>) of
        Inl err \<Rightarrow> after (MapstructureDecode (Some err)) (reply (RestError err StatusBadRequest) w)
      | Inr TextRequest \<Rightarrow>
          after (MapstructureDecode None)
            (case UpdateSecretTextCredentialInFolder s (req_Domain request) (st_Id TextRequest)
                    (st_Secret TextRequest) (st_Description TextRequest) projectId w of
               ((credentialId, err), w1) \<Rightarrow>
                 after (Jenkins (CallUpdateSecretTextCredentialInFolder (req_Domain request)
                          (st_Id TextRequest) (st_Secret TextRequest)
                          (st_Description TextRequest) projectId)
                        (non_nil credentialId) err)
                   (case err of
                      Some e \<Rightarrow> reply (RestError e (GetJenkinsStatusCode s e)) w1
                    | None \<Rightarrow> WriteJson_Id credentialId w1)))"

definition Update_Kubeconfig ::
  "'w ProjectService \<Rightarrow> CredentialRequest \<Rightarrow> string \<Rightarrow> string \<Rightarrow> 'w \<Rightarrow> 'w result" where
  "Update_Kubeconfig s request projectId credentialId w =
     (case DecodeKubeconfig s (req_Content request)
             (new_KubeconfigCredentialRequest\<lparr>kc_Id := credentialId\<rparr>) of
        Inl err \<Rightarrow> after (MapstructureDecode (Some err)) (reply (RestError err StatusBadRequest) w)
      | Inr KubeconfigRequest \<Rightarrow>
          after (MapstructureDecode None)
            (case UpdateKubeconfigCredentialInFolder s (req_Domain request)
                    (kc_Id KubeconfigRequest) (kc_Content KubeconfigRequest)
                    (kc_Description KubeconfigRequest) projectId w of
               ((credentialId, err), w1) \<Rightarrow>
                 after (Jenkins (CallUpdateKubeconfigCredentialInFolder (req_Domain request)
                          (kc_Id KubeconfigRequest) (kc_Content KubeconfigRequest)
                          (kc_Description KubeconfigRequest) projectId)
                        (non_nil credentialId) err)
                   (case err of
                      Some e \<Rightarrow> reply (RestError e (GetJenkinsStatusCode s e)) w1
                    | None \<Rightarrow> WriteJson_Id credentialId w1)))"

text \<open>\<^verbatim>\<open>CredentialTypeMap[typeName]\<close>: a missing key gives the empty string.\<close>

definition credentialType_of :: "'w ProjectService \<Rightarrow> string \<Rightarrow> string" where
  "credentialType_of s typeName =
     (case CredentialTypeMap s typeName of None \<Rightarrow> [] | Some t \<Rightarrow> t)"

definition UpdateCredentialHandler :: "'w ProjectService \<Rightarrow> Request \<Rightarrow> 'w \<Rightarrow> 'w result" where
  "UpdateCredentialHandler s r w =
     (let projectId = PathParam r ''id'';
          operator = GetUserNameFromRequest s r;
          credentialId = PathParam r ''cid''
      in case DecodeCredentialRequest s r of
           Inl err \<Rightarrow>
             after (DecodeJsonPayload (Some err)) (reply (RestError err StatusBadRequest) w)
         | Inr request \<Rightarrow>
             after (DecodeJsonPayload None)
               (let err = checkProjectUserInRole s operator projectId
                            [ProjectOwner, ProjectMaintainer] w
                in after (CheckProjectUserInRole operator projectId
                            [ProjectOwner, ProjectMaintainer] err)
                     (case err of
                        Some e \<Rightarrow> reply (RestError e StatusForbidden) w
                      | None \<Rightarrow>
                          (case GetCredentialInFolder s (req_Domain request) credentialId
                                  projectId w of
                             (jenkinsCredential, err) \<Rightarrow>
                               after (Jenkins (CallGetCredentialInFolder (req_Domain request)
                                        credentialId projectId) (non_nil jenkinsCredential) err)
                                 (case err of
                                    Some e \<Rightarrow> reply (RestError e (GetJenkinsStatusCode s e)) w
                                  | None \<Rightarrow>
                                      (case jenkinsCredential of
                                         None \<Rightarrow> reply Panic w
                                       | Some jc \<Rightarrow>
                                           (let credentialType =
                                                  credentialType_of s (jc_TypeName jc)
                                            in if credentialType = CredentialTypeUsernamePassword
                                               then Update_UsernamePassword s request projectId
                                                      credentialId w
                                               else if credentialType = CredentialTypeSsh
                                               then Update_Ssh s request projectId credentialId w
                                               else if credentialType = CredentialTypeSecretText
                                               then Update_SecretText s request projectId
                                                      credentialId w
                                               else if credentialType = CredentialTypeKubeConfig
                                               then Update_Kubeconfig s request projectId
                                                      credentialId w
                                               else reply (RestError
                                                      (Errorf (''error unsupport credential type ''
                                                         @ credentialType))
                                                      StatusBadRequest) w)))))))"

subsection \<open>GetCredentialHandler\<close>

text \<open>
  \<^verbatim>\<open>doc.Find(selector).Each(func ...)\<close> assigns the field once per selected element, so
  the field ends as the value of the last one, and keeps its zero value when nothing
  is selected. \<^verbatim>\<open>selection.Attr("value")\<close> is empty when the attribute is missing.
\<close>

definition Each_assign :: "Document \<Rightarrow> string \<Rightarrow> (Selection \<Rightarrow> string) \<Rightarrow> string" where
  "Each_assign doc selector f = foldl (\<lambda>field selection. f selection) [] (doc selector)"

definition Attr_value :: "Selection \<Rightarrow> string" where
  "Attr_value selection =
     (case map_of (sel_Attr selection) ''value'' of None \<Rightarrow> [] | Some v \<Rightarrow> v)"

text \<open>
  \<^verbatim>\<open>json.Marshal\<close> of the scraped structure, by its \<^verbatim>\<open>json\<close> tags (\<^verbatim>\<open>omitempty\<close>
  drops an empty password), read back by \<^verbatim>\<open>json.Unmarshal\<close> into the response's
  content map, whose other keys stay.
\<close>

definition Marshal_Kubeconfig :: "KubeconfigCredentialRequest \<Rightarrow> (string \<times> json) list" where
  "Marshal_Kubeconfig c =
     [(''id'', JString (kc_Id c)), (''content'', JString (kc_Content c)),
      (''description'', JString (kc_Description c))]"

definition Marshal_UsernamePassword ::
  "UsernamePasswordCredentialRequest \<Rightarrow> (string \<times> json) list" where
  "Marshal_UsernamePassword c =
     [(''id'', JString (up_Id c)), (''username'', JString (up_Username c))]
     @ (if up_Password c = [] then [] else [(''password'', JString (up_Password c))])
     @ [(''description'', JString (up_Description c))]"

definition Marshal_Ssh :: "SshCredentialRequest \<Rightarrow> (string \<times> json) list" where
  "Marshal_Ssh c =
     [(''id'', JString (ssh_Id c)), (''username'', JString (ssh_Username c)),
      (''passphrase'', JString (ssh_Passphrase c)),
      (''private_key'', JString (ssh_PrivateKey c)),
      (''description'', JString (ssh_Description c))]"

definition Unmarshal_into :: "(string \<times> json) list \<Rightarrow> content \<Rightarrow> content" where
  "Unmarshal_into kvs m = m ++ map_of kvs"

definition scrape_content :: "CredentialResponse \<Rightarrow> Document \<Rightarrow> CredentialResponse" where
  "scrape_content response doc =
     (if cr_Type response = CredentialTypeKubeConfig then
        response\<lparr>cr_Content := Unmarshal_into (Marshal_Kubeconfig
          \<lparr>kc_Id = Each_assign doc ''input[name*=id][type=text]'' Attr_value,
           kc_Content = Each_assign doc ''textarea[name*=content]'' sel_Text,
           kc_Description = Each_assign doc ''input[name*=description]'' Attr_value\<rparr>)
          (cr_Content response)\<rparr>
      else if cr_Type response = CredentialTypeUsernamePassword then
        response\<lparr>cr_Content := Unmarshal_into (Marshal_UsernamePassword
          \<lparr>up_Id = Each_assign doc ''input[name*=id][type=text]'' Attr_value,
           up_Username = Each_assign doc ''input[name*=username]'' Attr_value,
           up_Password = [],
           up_Description = Each_assign doc ''input[name*=description]'' Attr_value\<rparr>)
          (cr_Content response)\<rparr>
      else if cr_Type response = CredentialTypeSsh then
        response\<lparr>cr_Content := Unmarshal_into (Marshal_Ssh
          \<lparr>ssh_Id = Each_assign doc ''input[name*=id][type=text]'' Attr_value,
           ssh_Username = Each_assign doc ''input[name*=username]'' Attr_value,
           ssh_Passphrase = [],
           ssh_PrivateKey = Each_assign doc ''textarea[name*=privateKey]'' sel_Text,
           ssh_Description = Each_assign doc ''input[name*=description]'' Attr_value\<rparr>)
          (cr_Content response)\<rparr>
      else response)"

text \<open>Lines 525-602: format the response and, when asked, add the scraped content.\<close>

definition Get_respond ::
  "'w ProjectService \<Rightarrow> string \<Rightarrow> string \<Rightarrow> string \<Rightarrow> string \<Rightarrow> gojenkins_CredentialResponse
     \<Rightarrow> ProjectCredential \<Rightarrow> 'w \<Rightarrow> 'w result" where
  "Get_respond s getContent domain credentialId projectId credentialResponse projectCredential w =
     (let response = formatCredentialResponse s credentialResponse projectCredential
      in if getContent \<noteq> [] then
           (case GetCredentialContentInFolder s domain credentialId projectId w of
              (stringBody, err) \<Rightarrow>
                after (Jenkins (CallGetCredentialContentInFolder domain credentialId projectId)
                         True err)
                  (case err of
                     Some e \<Rightarrow> reply (RestError e (GetJenkinsStatusCode s e)) w
                   | None \<Rightarrow>
                       (case NewDocumentFromReader s stringBody of
                          Inl e \<Rightarrow> reply (RestError e (GetJenkinsStatusCode s e)) w
                        | Inr doc \<Rightarrow> reply (WriteJsonCredential (scrape_content response doc)) w)))
         else reply (WriteJsonCredential response) w)"

definition GetCredentialHandler :: "'w ProjectService \<Rightarrow> Request \<Rightarrow> 'w \<Rightarrow> 'w result" where
  "GetCredentialHandler s r w =
     (let getContent = QueryGet r ''content'';
          projectId = PathParam r ''id'';
          operator = GetUserNameFromRequest s r;
          credentialId = PathParam r ''cid'';
          domain = QueryGet r ''domain'';
          err = checkProjectUserInRole s operator projectId [ProjectOwner, ProjectMaintainer] w
      in after (CheckProjectUserInRole operator projectId [ProjectOwner, ProjectMaintainer] err)
           (case err of
              Some e \<Rightarrow> reply (RestError e StatusForbidden) w
            | None \<Rightarrow>
                (case GetCredentialInFolder s domain credentialId projectId w of
                   (credentialResponse, err) \<Rightarrow>
                     after (Jenkins (CallGetCredentialInFolder domain credentialId projectId)
                              (non_nil credentialResponse) err)
                       (case err of
                          Some e \<Rightarrow> reply (RestError e (GetJenkinsStatusCode s e)) w
                        | None \<Rightarrow>
                            (case credentialResponse of
                               None \<Rightarrow> reply Panic w
                             | Some cr \<Rightarrow>
                                 (let where' = And [Eq ProjectIdColumn projectId,
                                                    Eq ProjectCredentialIdColumn (jc_Id cr),
                                                    Eq ProjectCredentialDomainColumn (jc_Domain cr)];
                                      loaded = LoadOne s where' w
                                  in after (Db (CallLoadOne where') (error_of loaded))
                                       (case loaded of
                                          Inr projectCredential \<Rightarrow>
                                            Get_respond s getContent domain credentialId projectId
                                              cr projectCredential w
                                        | Inl e \<Rightarrow>
                                            if e \<noteq> ErrNotFound
                                            then reply (RestError e (GetJenkinsStatusCode s e)) w
                                            else Get_respond s getContent domain credentialId
                                                   projectId cr new_ProjectCredential w)))))))"

subsection \<open>GetCredentialsHandler\<close>

definition GetCredentialsHandler :: "'w ProjectService \<Rightarrow> Request \<Rightarrow> 'w \<Rightarrow> 'w result" where
  "GetCredentialsHandler s r w =
     (let projectId = PathParam r ''id'';
          operator = GetUserNameFromRequest s r;
          domain = QueryGet r ''domain'';
          err = checkProjectUserInRole s operator projectId [ProjectOwner, ProjectMaintainer] w
      in after (CheckProjectUserInRole operator projectId [ProjectOwner, ProjectMaintainer] err)
           (case err of
              Some e \<Rightarrow> reply (RestError e StatusForbidden) w
            | None \<Rightarrow>
                (case GetCredentialsInFolder s domain projectId w of
                   (jenkinsCredentialResponses, err) \<Rightarrow>
                     after (Jenkins (CallGetCredentialsInFolder domain projectId) True err)
                       (case err of
                          Some e \<Rightarrow> reply (RestError e (GetJenkinsStatusCode s e)) w
                        | None \<Rightarrow>
                            (let selectCondition =
                                   (if \<not> IsNull domain
                                    then And [Eq ProjectIdColumn projectId,
                                              Eq ProjectCredentialDomainColumn domain]
                                    else Eq ProjectIdColumn projectId)
                             in case Load s selectCondition w of
                                  (projectCredentials, err) \<Rightarrow>
                                    after (Db (CallLoad selectCondition) err)
                                      (case err of
                                         Some e \<Rightarrow>
                                           reply (RestError e (GetJenkinsStatusCode s e)) w
                                       | None \<Rightarrow>
                                           reply (WriteJsonCredentials
                                             (formatCredentialsResponse s
                                                jenkinsCredentialResponses projectCredentials))
                                             w))))))"

subsection \<open>The five endpoints\<close>

datatype handler =
    CreateCredential
  | DeleteCredential
  | UpdateCredential
  | GetCredential
  | GetCredentials

fun serve :: "handler \<Rightarrow> 'w ProjectService \<Rightarrow> Request \<Rightarrow> 'w \<Rightarrow> 'w result" where
  "serve CreateCredential = CreateCredentialHandler"
| "serve DeleteCredential = DeleteCredentialHandler"
| "serve UpdateCredential = UpdateCredentialHandler"
| "serve GetCredential = GetCredentialHandler"
| "serve GetCredentials = GetCredentialsHandler"

subsection \<open>Reading a trace\<close>

fun is_jenkins :: "event \<Rightarrow> bool" where
  "is_jenkins (Jenkins c v err) = True"
| "is_jenkins ev = False"

fun is_db :: "event \<Rightarrow> bool" where
  "is_db (Db c err) = True"
| "is_db ev = False"

fun creates :: "jenkins_call \<Rightarrow> bool" where
  "creates (CallCreateUsernamePasswordCredentialInFolder d i u pw de p) = True"
| "creates (CallCreateSshCredentialInFolder d i u ph k de p) = True"
| "creates (CallCreateSecretTextCredentialInFolder d i se de p) = True"
| "creates (CallCreateKubeconfigCredentialInFolder d i c de p) = True"
| "creates c = False"

text \<open>The credential type an update call is for.\<close>

fun update_type :: "jenkins_call \<Rightarrow> string option" where
  "update_type (CallUpdateUsernamePasswordCredentialInFolder d i u pw de p) =
     Some CredentialTypeUsernamePassword"
| "update_type (CallUpdateSshCredentialInFolder d i u ph k de p) = Some CredentialTypeSsh"
| "update_type (CallUpdateSecretTextCredentialInFolder d i se de p) =
     Some CredentialTypeSecretText"
| "update_type (CallUpdateKubeconfigCredentialInFolder d i c de p) =
     Some CredentialTypeKubeConfig"
| "update_type c = None"

fun deletes :: "jenkins_call \<Rightarrow> bool" where
  "deletes (CallDeleteCredentialInFolder d i p) = True"
| "deletes c = False"

definition changes_remote :: "jenkins_call \<Rightarrow> bool" where
  "changes_remote c = (creates c \<or> update_type c \<noteq> None \<or> deletes c)"

fun is_remote_change :: "event \<Rightarrow> bool" where
  "is_remote_change (Jenkins c v err) = changes_remote c"
| "is_remote_change ev = False"

fun is_existence_check :: "jenkins_call \<Rightarrow> bool" where
  "is_existence_check (CallGetCredentialInFolder d i p) = True"
| "is_existence_check c = False"

fun is_ssh_update :: "jenkins_call \<Rightarrow> bool" where
  "is_ssh_update (CallUpdateSshCredentialInFolder d i u ph k de p) = True"
| "is_ssh_update c = False"


text \<open>The state a creation call leaves, by the method of the service it names.\<close>

fun after_creation :: "'w ProjectService \<Rightarrow> jenkins_call \<Rightarrow> 'w \<Rightarrow> 'w" where
  "after_creation s (CallCreateUsernamePasswordCredentialInFolder d i u pw de p) w =
     snd (CreateUsernamePasswordCredentialInFolder s d i u pw de p w)"
| "after_creation s (CallCreateSshCredentialInFolder d i u ph k de p) w =
     snd (CreateSshCredentialInFolder s d i u ph k de p w)"
| "after_creation s (CallCreateSecretTextCredentialInFolder d i se de p) w =
     snd (CreateSecretTextCredentialInFolder s d i se de p w)"
| "after_creation s (CallCreateKubeconfigCredentialInFolder d i c de p) w =
     snd (CreateKubeconfigCredentialInFolder s d i c de p w)"
| "after_creation s c w = w"

text \<open>
  The five kinds of step in the order the spec gives them: decode the request,
  authorize, decode the payload, call the remote API, touch the local store.
\<close>

fun phase :: "event \<Rightarrow> nat" where
  "phase (DecodeJsonPayload err) = 0"
| "phase (CheckProjectUserInRole operator projectId roles err) = 1"
| "phase (MapstructureDecode err) = 2"
| "phase (Jenkins c v err) = 3"
| "phase (Db c err) = 4"

fun is_authorized :: "event \<Rightarrow> bool" where
  "is_authorized (CheckProjectUserInRole operator projectId roles None) =
     (roles = [ProjectOwner, ProjectMaintainer])"
| "is_authorized ev = False"

text \<open>No remote call and no local-store call before an authorization that succeeded.\<close>

fun guarded :: "event list \<Rightarrow> bool" where
  "guarded [] = True"
| "guarded (ev # evs) =
     (if is_authorized ev then True
      else \<not> is_jenkins ev \<and> \<not> is_db ev \<and> guarded evs)"






text \<open>A step that is no update call, or an update call for the credential type \<open>t\<close>.\<close>

fun updates_as :: "string \<Rightarrow> event \<Rightarrow> bool" where
  "updates_as t (Jenkins c v err) = (update_type c = None \<or> update_type c = Some t)"
| "updates_as t ev = True"

text \<open>
  The error of decoding the request body, for the three handlers that read one; the
  get and list handlers take their arguments from the URL.
\<close>

fun body_error :: "handler \<Rightarrow> 'w ProjectService \<Rightarrow> Request \<Rightarrow> error option" where
  "body_error CreateCredential s r = error_of (DecodeCredentialRequest s r)"
| "body_error UpdateCredential s r = error_of (DecodeCredentialRequest s r)"
| "body_error DeleteCredential s r = error_of (DecodeDeleteCredentialRequest s r)"
| "body_error GetCredential s r = None"
| "body_error GetCredentials s r = None"

text \<open>What a handler does after the first occurrence of a step.\<close>

definition following :: "event \<Rightarrow> event list \<Rightarrow> event list" where
  "following ev evs = tl (dropWhile (\<lambda>x. x \<noteq> ev) evs)"


text \<open>The decoder of a service, with the \<^verbatim>\<open>type\<close> field of what it decodes replaced.\<close>

definition retyped :: "string \<Rightarrow> 'w ProjectService \<Rightarrow> 'w ProjectService" where
  "retyped t s =
     s\<lparr>DecodeCredentialRequest :=
          (\<lambda>r. case DecodeCredentialRequest s r of
                  Inl err \<Rightarrow> Inl err
                | Inr request \<Rightarrow> Inr (request\<lparr>req_Type := t\<rparr>))\<rparr>"

subsection \<open>A model of the remote store and of the ownership table\<close>

text \<open>
  Modelled from the spec: the Jenkins client and the relational store are outside the
  files at hand. A remote credential is identified by (domain, id) within the folder
  of its project, the domain being the one the call names; a creation stores the
  credential under that key, an update and a deletion of a credential that is not
  there fail with status 404. The ownership table holds rows (project id, credential
  id, domain, creator, create time); an insertion adds its row, a deletion removes the
  rows its condition holds of, a selection returns them (\<open>ErrNotFound\<close> when one is
  asked for and there is none). A condition is the conjunction of the column
  equalities it is built from.
\<close>

fun column_value :: "column \<Rightarrow> ProjectCredential \<Rightarrow> string" where
  "column_value ProjectIdColumn row = pc_ProjectId row"
| "column_value ProjectCredentialIdColumn row = pc_CredentialId row"
| "column_value ProjectCredentialDomainColumn row = pc_Domain row"

fun holds :: "Builder \<Rightarrow> ProjectCredential \<Rightarrow> bool" where
  "holds (Eq col v) row = (column_value col row = v)"
| "holds (And conds) row = list_all (\<lambda>c. holds c row) conds"

record store =
  jenkins :: "((string \<times> string \<times> string) \<times> gojenkins_CredentialResponse) list"
  project_credential :: "ProjectCredential list"
  project_membership :: "(string \<times> string \<times> string) list"
  clock :: int

text \<open>
  Any call on the two collaborators may fail (the network, the database): \<open>faults\<close>
  says which calls of a request do, and with which error. A call that fails leaves
  the state as it was.
\<close>

record faults =
  jenkins_fault :: "jenkins_call \<Rightarrow> error option"
  db_fault :: "db_call \<Rightarrow> error option"

definition no_faults :: faults where
  "no_faults = \<lparr>jenkins_fault = (\<lambda>c. None), db_fault = (\<lambda>c. None)\<rparr>"

definition remote_credential ::
  "store \<Rightarrow> string \<Rightarrow> string \<Rightarrow> string \<Rightarrow> gojenkins_CredentialResponse option" where
  "remote_credential w projectId domain id' = map_of (jenkins w) (projectId, domain, id')"

definition put_credential ::
  "string \<Rightarrow> string \<Rightarrow> string \<Rightarrow> gojenkins_CredentialResponse \<Rightarrow> store \<Rightarrow> store" where
  "put_credential projectId domain id' c w =
     w\<lparr>jenkins := ((projectId, domain, id'), c)
          # filter (\<lambda>kv. fst kv \<noteq> (projectId, domain, id')) (jenkins w)\<rparr>"

definition drop_credential :: "string \<Rightarrow> string \<Rightarrow> string \<Rightarrow> store \<Rightarrow> store" where
  "drop_credential projectId domain id' w =
     w\<lparr>jenkins := filter (\<lambda>kv. fst kv \<noteq> (projectId, domain, id')) (jenkins w)\<rparr>"

definition store_GetCredentialInFolder ::
  "faults \<Rightarrow> string \<Rightarrow> string \<Rightarrow> string \<Rightarrow> store
     \<Rightarrow> gojenkins_CredentialResponse option \<times> error option" where
  "store_GetCredentialInFolder f domain id' projectId w =
     (case jenkins_fault f (CallGetCredentialInFolder domain id' projectId) of
        Some e \<Rightarrow> (None, Some e)
      | None \<Rightarrow>
          (case remote_credential w projectId domain id' of
             None \<Rightarrow> (None, Some (Errorf ''404''))
           | Some c \<Rightarrow> (Some c, None)))"

definition store_GetCredentialsInFolder ::
  "faults \<Rightarrow> string \<Rightarrow> string \<Rightarrow> store \<Rightarrow> gojenkins_CredentialResponse list \<times> error option" where
  "store_GetCredentialsInFolder f domain projectId w =
     (case jenkins_fault f (CallGetCredentialsInFolder domain projectId) of
        Some e \<Rightarrow> ([], Some e)
      | None \<Rightarrow>
          (map snd (filter (\<lambda>kv. fst (fst kv) = projectId \<and> fst (snd (fst kv)) = domain)
             (jenkins w)), None))"

text \<open>A creation stores the credential under its key; its remote type name is the tag \<open>t\<close>.\<close>

definition store_create ::
  "faults \<Rightarrow> jenkins_call \<Rightarrow> string \<Rightarrow> string \<Rightarrow> string \<Rightarrow> string \<Rightarrow> string \<Rightarrow> store
     \<Rightarrow> (string option \<times> error option) \<times> store" where
  "store_create f call t domain id' description projectId w =
     (case jenkins_fault f call of
        Some e \<Rightarrow> ((None, Some e), w)
      | None \<Rightarrow>
          ((Some id', None),
           put_credential projectId domain id'
             \<lparr>jc_Id = id', jc_TypeName = t, jc_Fingerprint = [], jc_Description = description,
              jc_Domain = domain\<rparr> w))"

definition store_update ::
  "faults \<Rightarrow> jenkins_call \<Rightarrow> string \<Rightarrow> string \<Rightarrow> string \<Rightarrow> string \<Rightarrow> store
     \<Rightarrow> (string option \<times> error option) \<times> store" where
  "store_update f call domain id' description projectId w =
     (case jenkins_fault f call of
        Some e \<Rightarrow> ((None, Some e), w)
      | None \<Rightarrow>
          (case remote_credential w projectId domain id' of
             None \<Rightarrow> ((None, Some (Errorf ''404'')), w)
           | Some c \<Rightarrow>
               ((Some id', None),
                put_credential projectId domain id' (c\<lparr>jc_Description := description\<rparr>) w)))"

definition store_DeleteCredentialInFolder ::
  "faults \<Rightarrow> string \<Rightarrow> string \<Rightarrow> string \<Rightarrow> store \<Rightarrow> (string option \<times> error option) \<times> store" where
  "store_DeleteCredentialInFolder f domain id' projectId w =
     (case jenkins_fault f (CallDeleteCredentialInFolder domain id' projectId) of
        Some e \<Rightarrow> ((None, Some e), w)
      | None \<Rightarrow>
          (case remote_credential w projectId domain id' of
             None \<Rightarrow> ((None, Some (Errorf ''404'')), w)
           | Some c \<Rightarrow> ((Some id', None), drop_credential projectId domain id' w)))"

definition store_InsertInto :: "faults \<Rightarrow> ProjectCredential \<Rightarrow> store \<Rightarrow> error option \<times> store" where
  "store_InsertInto f row w =
     (case db_fault f (CallInsertInto row) of
        Some e \<Rightarrow> (Some e, w)
      | None \<Rightarrow> (None, w\<lparr>project_credential := project_credential w @ [row]\<rparr>))"

definition store_DeleteFrom :: "faults \<Rightarrow> Builder \<Rightarrow> store \<Rightarrow> error option \<times> store" where
  "store_DeleteFrom f cond w =
     (case db_fault f (CallDeleteFrom cond) of
        Some e \<Rightarrow> (Some e, w)
      | None \<Rightarrow>
          (None, w\<lparr>project_credential :=
                     filter (\<lambda>row. \<not> holds cond row) (project_credential w)\<rparr>))"

definition store_LoadOne :: "faults \<Rightarrow> Builder \<Rightarrow> store \<Rightarrow> error + ProjectCredential" where
  "store_LoadOne f cond w =
     (case db_fault f (CallLoadOne cond) of
        Some e \<Rightarrow> Inl e
      | None \<Rightarrow>
          (case filter (holds cond) (project_credential w) of
             [] \<Rightarrow> Inl ErrNotFound
           | row # rows \<Rightarrow> Inr row))"

definition store_Load ::
  "faults \<Rightarrow> Builder \<Rightarrow> store \<Rightarrow> ProjectCredential list \<times> error option" where
  "store_Load f cond w =
     (case db_fault f (CallLoad cond) of
        Some e \<Rightarrow> ([], Some e)
      | None \<Rightarrow> (filter (holds cond) (project_credential w), None))"

definition store_NewProjectCredential ::
  "string \<Rightarrow> string \<Rightarrow> string \<Rightarrow> string \<Rightarrow> store \<Rightarrow> ProjectCredential" where
  "store_NewProjectCredential projectId credentialId domain creator w =
     \<lparr>pc_ProjectId = projectId, pc_CredentialId = credentialId, pc_Domain = domain,
      pc_Creator = creator, pc_CreateTime = clock w\<rparr>"

text \<open>A service whose Jenkins client and relational store are the model, under \<open>f\<close>.\<close>

definition on_store :: "faults \<Rightarrow> store ProjectService \<Rightarrow> store ProjectService" where
  "on_store f s =
     s\<lparr>NewProjectCredential := store_NewProjectCredential,
       GetCredentialInFolder := store_GetCredentialInFolder f,
       GetCredentialsInFolder := store_GetCredentialsInFolder f,
       CreateUsernamePasswordCredentialInFolder :=
         (\<lambda>d i u pw de p.
            store_create f (CallCreateUsernamePasswordCredentialInFolder d i u pw de p)
              CredentialTypeUsernamePassword d i de p),
       CreateSshCredentialInFolder :=
         (\<lambda>d i u ph k de p.
            store_create f (CallCreateSshCredentialInFolder d i u ph k de p)
              CredentialTypeSsh d i de p),
       CreateSecretTextCredentialInFolder :=
         (\<lambda>d i se de p.
            store_create f (CallCreateSecretTextCredentialInFolder d i se de p)
              CredentialTypeSecretText d i de p),
       CreateKubeconfigCredentialInFolder :=
         (\<lambda>d i c de p.
            store_create f (CallCreateKubeconfigCredentialInFolder d i c de p)
              CredentialTypeKubeConfig d i de p),
       UpdateUsernamePasswordCredentialInFolder :=
         (\<lambda>d i u pw de p.
            store_update f (CallUpdateUsernamePasswordCredentialInFolder d i u pw de p) d i de p),
       UpdateSshCredentialInFolder :=
         (\<lambda>d i u ph k de p.
            store_update f (CallUpdateSshCredentialInFolder d i u ph k de p) d i de p),
       UpdateSecretTextCredentialInFolder :=
         (\<lambda>d i se de p.
            store_update f (CallUpdateSecretTextCredentialInFolder d i se de p) d i de p),
       UpdateKubeconfigCredentialInFolder :=
         (\<lambda>d i c de p.
            store_update f (CallUpdateKubeconfigCredentialInFolder d i c de p) d i de p),
       DeleteCredentialInFolder := store_DeleteCredentialInFolder f,
       InsertInto := store_InsertInto f,
       DeleteFrom := store_DeleteFrom f,
       LoadOne := store_LoadOne f,
       Load := store_Load f\<rparr>"


text \<open>
  A request served on the model: the endpoint, the faults of its calls, the rest of
  the service, and the request.
\<close>

record served =
  sv_handler :: handler
  sv_faults :: faults
  sv_service :: "store ProjectService"
  sv_request :: Request





subsection \<open>A small service to run the handlers on\<close>

text \<open>
  The examples need decoders and formatters to run. These stand in for the JSON and
  \<^verbatim>\<open>mapstructure\<close> decoders on a line format (\<^verbatim>\<open>type;domain;id\<close>, the id \<^verbatim>\<open>0\<close>
  being a number where a string is expected), for the role check on the membership
  table, for the status translator on errors that carry a status, and for the
  formatters (which leave out the create time of an ownership record that has none).
  No theorem on an arbitrary service depends on them.
\<close>

fun semicolon_separated :: "string \<Rightarrow> string list" where
  "semicolon_separated [] = [[]]"
| "semicolon_separated (c # cs) =
     (if c = CHR '';'' then [] # semicolon_separated cs
      else (case semicolon_separated cs of
              [] \<Rightarrow> [[c]]
            | x # xs \<Rightarrow> (c # x) # xs))"

definition demo_DecodeCredentialRequest :: "Request \<Rightarrow> error + CredentialRequest" where
  "demo_DecodeCredentialRequest r =
     (case semicolon_separated (Body r) of
        [t, d, i] \<Rightarrow>
          Inr \<lparr>req_Type = t, req_Domain = d,
               req_Content = [''id'' \<mapsto> (if i = ''0'' then JNumber 0 else JString i)]\<rparr>
      | _ \<Rightarrow> Inl (Errorf ''invalid character''))"

definition demo_DecodeDeleteCredentialRequest :: "Request \<Rightarrow> error + DeleteCredentialRequest" where
  "demo_DecodeDeleteCredentialRequest r =
     (case semicolon_separated (Body r) of
        [d] \<Rightarrow> Inr \<lparr>del_Domain = d\<rparr>
      | _ \<Rightarrow> Inl (Errorf ''invalid character''))"

definition demo_id_field :: "content \<Rightarrow> string \<Rightarrow> error + string" where
  "demo_id_field c current =
     (case c ''id'' of
        None \<Rightarrow> Inr current
      | Some (JString v) \<Rightarrow> Inr v
      | Some _ \<Rightarrow> Inl (Errorf ''expected type string''))"

definition demo_checkProjectUserInRole ::
  "string \<Rightarrow> string \<Rightarrow> string list \<Rightarrow> store \<Rightarrow> error option" where
  "demo_checkProjectUserInRole operator projectId roles w =
     (if list_ex (\<lambda>role. (projectId, operator, role) \<in> set (project_membership w)) roles
      then None else Some (Errorf ''forbidden''))"

definition demo_GetJenkinsStatusCode :: "error \<Rightarrow> int" where
  "demo_GetJenkinsStatusCode err =
     (case err of
        Errorf m \<Rightarrow> (if m = ''404'' then 404 else if m = ''403'' then 403 else 500)
      | _ \<Rightarrow> 500)"

definition demo_CredentialTypeMap :: "string \<rightharpoonup> string" where
  "demo_CredentialTypeMap =
     map_of [(CredentialTypeUsernamePassword, CredentialTypeUsernamePassword),
             (CredentialTypeSsh, CredentialTypeSsh),
             (CredentialTypeSecretText, CredentialTypeSecretText),
             (CredentialTypeKubeConfig, CredentialTypeKubeConfig)]"

definition demo_formatCredentialResponse ::
  "gojenkins_CredentialResponse \<Rightarrow> ProjectCredential \<Rightarrow> CredentialResponse" where
  "demo_formatCredentialResponse jc pc =
     \<lparr>cr_Id = jc_Id jc,
      cr_Type = (case demo_CredentialTypeMap (jc_TypeName jc) of None \<Rightarrow> [] | Some t \<Rightarrow> t),
      cr_DisplayName = [], cr_Fingerprint = None, cr_Description = jc_Description jc,
      cr_Domain = jc_Domain jc,
      cr_CreateTime = (if pc_CreateTime pc = 0 then None else Some (pc_CreateTime pc)),
      cr_Creator = pc_Creator pc, cr_Content = Map.empty\<rparr>"

definition demo_formatCredentialsResponse ::
  "gojenkins_CredentialResponse list \<Rightarrow> ProjectCredential list \<Rightarrow> CredentialResponse list" where
  "demo_formatCredentialsResponse jcs pcs =
     map (\<lambda>jc. demo_formatCredentialResponse jc
                 (case find (\<lambda>pc. pc_CredentialId pc = jc_Id jc \<and> pc_Domain pc = jc_Domain jc) pcs of
                    None \<Rightarrow> new_ProjectCredential
                  | Some pc \<Rightarrow> pc)) jcs"

definition demo :: "faults \<Rightarrow> store ProjectService" where
  "demo f =
     on_store f
       \<lparr>GetUserNameFromRequest =
          (\<lambda>r. case map_of (Header r) ''X-Token-Username'' of None \<Rightarrow> [] | Some u \<Rightarrow> u),
        DecodeCredentialRequest = demo_DecodeCredentialRequest,
        DecodeDeleteCredentialRequest = demo_DecodeDeleteCredentialRequest,
        DecodeUsernamePassword =
          (\<lambda>c x. case demo_id_field c (up_Id x) of Inl e \<Rightarrow> Inl e | Inr i \<Rightarrow> Inr (x\<lparr>up_Id := i\<rparr>)),
        DecodeSsh =
          (\<lambda>c x. case demo_id_field c (ssh_Id x) of Inl e \<Rightarrow> Inl e | Inr i \<Rightarrow> Inr (x\<lparr>ssh_Id := i\<rparr>)),
        DecodeSecretText =
          (\<lambda>c x. case demo_id_field c (st_Id x) of Inl e \<Rightarrow> Inl e | Inr i \<Rightarrow> Inr (x\<lparr>st_Id := i\<rparr>)),
        DecodeKubeconfig =
          (\<lambda>c x. case demo_id_field c (kc_Id x) of Inl e \<Rightarrow> Inl e | Inr i \<Rightarrow> Inr (x\<lparr>kc_Id := i\<rparr>)),
        checkProjectUserInRole = demo_checkProjectUserInRole,
        GetJenkinsStatusCode = demo_GetJenkinsStatusCode,
        CredentialTypeMap = demo_CredentialTypeMap,
        NewProjectCredential = store_NewProjectCredential,
        formatCredentialResponse = demo_formatCredentialResponse,
        formatCredentialsResponse = demo_formatCredentialsResponse,
        NewDocumentFromReader = (\<lambda>body. Inr (\<lambda>selector. [])),
        GetCredentialInFolder = store_GetCredentialInFolder f,
        GetCredentialsInFolder = store_GetCredentialsInFolder f,
        GetCredentialContentInFolder =
          (\<lambda>d i p w. case jenkins_fault f (CallGetCredentialContentInFolder d i p) of
                        None \<Rightarrow> ([], None)
                      | Some e \<Rightarrow> ([], Some e)),
        CreateUsernamePasswordCredentialInFolder = (\<lambda>d i u pw de p w. ((None, None), w)),
        CreateSshCredentialInFolder = (\<lambda>d i u ph k de p w. ((None, None), w)),
        CreateSecretTextCredentialInFolder = (\<lambda>d i se de p w. ((None, None), w)),
        CreateKubeconfigCredentialInFolder = (\<lambda>d i c de p w. ((None, None), w)),
        UpdateUsernamePasswordCredentialInFolder = (\<lambda>d i u pw de p w. ((None, None), w)),
        UpdateSshCredentialInFolder = (\<lambda>d i u ph k de p w. ((None, None), w)),
        UpdateSecretTextCredentialInFolder = (\<lambda>d i se de p w. ((None, None), w)),
        UpdateKubeconfigCredentialInFolder = (\<lambda>d i c de p w. ((None, None), w)),
        DeleteCredentialInFolder = store_DeleteCredentialInFolder f,
        InsertInto = store_InsertInto f,
        DeleteFrom = store_DeleteFrom f,
        LoadOne = store_LoadOne f,
        Load = store_Load f\<rparr>"

definition demo_store :: store where
  "demo_store =
     \<lparr>jenkins = [], project_credential = [],
      project_membership = [(''p1'', ''alice'', ''owner'')], clock = 7\<rparr>"

text \<open>The state after alice has created the SSH credential \<^verbatim>\<open>key1\<close> in domain \<^verbatim>\<open>_\<close>.\<close>

definition demo_store_key1 :: store where
  "demo_store_key1 =
     \<lparr>jenkins = [((''p1'', ''_'', ''key1''),
                  \<lparr>jc_Id = ''key1'', jc_TypeName = ''ssh'', jc_Fingerprint = [],
                   jc_Description = [], jc_Domain = ''_''\<rparr>)],
      project_credential =
        [\<lparr>pc_ProjectId = ''p1'', pc_CredentialId = ''key1'', pc_Domain = ''_'',
          pc_Creator = ''alice'', pc_CreateTime = 7\<rparr>],
      project_membership = [(''p1'', ''alice'', ''owner'')], clock = 7\<rparr>"

definition demo_request :: "string \<Rightarrow> string \<Rightarrow> Request" where
  "demo_request user body =
     \<lparr>PathParams = [(''id'', ''p1''), (''cid'', ''key1'')], Query = [],
      Header = [(''X-Token-Username'', user)], Body = body\<rparr>"

text \<open>
  Faults for the runs: the existence check fails with status 500; every call on the
  table fails.
\<close>

definition existence_check_fails :: faults where
  "existence_check_fails =
     \<lparr>jenkins_fault = (\<lambda>c. if is_existence_check c then Some (Errorf ''500'') else None),
      db_fault = (\<lambda>c. None)\<rparr>"

definition store_fails :: faults where
  "store_fails =
     \<lparr>jenkins_fault = (\<lambda>c. None),
      db_fault = (\<lambda>c. Some (Errorf ''connection refused''))\<rparr>"

definition demo_served :: "handler \<Rightarrow> faults \<Rightarrow> string \<Rightarrow> string \<Rightarrow> served" where
  "demo_served h f user body =
     \<lparr>sv_handler = h, sv_faults = f, sv_service = demo no_faults,
      sv_request = demo_request user body\<rparr>"

text \<open>The table answers \<open>ErrNotFound\<close> to every call.\<close>

definition row_not_found :: faults where
  "row_not_found = \<lparr>jenkins_fault = (\<lambda>c. None), db_fault = (\<lambda>c. Some ErrNotFound)\<rparr>"

text \<open>
  A state where \<^verbatim>\<open>key1\<close> exists remotely under the empty domain, and the table has a
  row for it in domain \<^verbatim>\<open>_\<close> and one with the empty domain.
\<close>

definition demo_store_global :: store where
  "demo_store_global =
     \<lparr>jenkins = [((''p1'', [], ''key1''),
                  \<lparr>jc_Id = ''key1'', jc_TypeName = ''ssh'', jc_Fingerprint = [],
                   jc_Description = [], jc_Domain = []\<rparr>)],
      project_credential =
        [\<lparr>pc_ProjectId = ''p1'', pc_CredentialId = ''key1'', pc_Domain = ''_'',
          pc_Creator = ''alice'', pc_CreateTime = 7\<rparr>,
         \<lparr>pc_ProjectId = ''p1'', pc_CredentialId = ''key1'', pc_Domain = [],
          pc_Creator = ''alice'', pc_CreateTime = 8\<rparr>],
      project_membership = [(''p1'', ''alice'', ''owner'')], clock = 9\<rparr>"

text \<open>The remote API refuses every change with status 403.\<close>

definition changes_refused :: faults where
  "changes_refused =
     \<lparr>jenkins_fault = (\<lambda>c. if changes_remote c then Some (Errorf ''403'') else None),
      db_fault = (\<lambda>c. None)\<rparr>"

text \<open>A state where \<^verbatim>\<open>key1\<close> is of a remote type the type map does not know.\<close>

definition demo_store_certificate :: store where
  "demo_store_certificate =
     \<lparr>jenkins = [((''p1'', ''_'', ''key1''),
                  \<lparr>jc_Id = ''key1'', jc_TypeName = ''certificate'', jc_Fingerprint = [],
                   jc_Description = [], jc_Domain = ''_''\<rparr>)],
      project_credential = [], project_membership = [(''p1'', ''alice'', ''owner'')],
      clock = 7\<rparr>"

section \<open>Properties\<close>

lemmas status_defs =
  StatusOK_def StatusBadRequest_def StatusForbidden_def StatusNotFound_def
  StatusConflict_def StatusInternalServerError_def

lemmas credential_type_defs =
  CredentialTypeUsernamePassword_def CredentialTypeSsh_def
  CredentialTypeSecretText_def CredentialTypeKubeConfig_def

lemmas create_defs =
  CreateCredentialHandler_def Create_UsernamePassword_def Create_Ssh_def
  Create_SecretText_def Create_Kubeconfig_def existence_check_def record_ownership_def
  WriteJson_Id_def

lemmas update_defs =
  UpdateCredentialHandler_def Update_UsernamePassword_def Update_Ssh_def
  Update_SecretText_def Update_Kubeconfig_def WriteJson_Id_def

lemmas delete_defs = DeleteCredentialHandler_def WriteJson_Id_def

lemmas get_defs = GetCredentialHandler_def Get_respond_def

lemmas list_defs = GetCredentialsHandler_def

lemmas store_defs =
  on_store_def store_GetCredentialInFolder_def store_GetCredentialsInFolder_def
  store_create_def store_update_def store_DeleteCredentialInFolder_def
  store_InsertInto_def store_DeleteFrom_def store_LoadOne_def store_Load_def
  store_NewProjectCredential_def remote_credential_def put_credential_def
  drop_credential_def

lemmas demo_defs =
  demo_def demo_store_def demo_store_key1_def demo_request_def existence_check_fails_def
  row_not_found_def
  store_fails_def demo_served_def demo_DecodeCredentialRequest_def
  demo_DecodeDeleteCredentialRequest_def demo_id_field_def demo_checkProjectUserInRole_def
  demo_GetJenkinsStatusCode_def demo_CredentialTypeMap_def
  demo_formatCredentialResponse_def demo_formatCredentialsResponse_def no_faults_def
  PathParam_def QueryGet_def ProjectOwner_def ProjectMaintainer_def
  new_UsernamePasswordCredentialRequest_def new_SshCredentialRequest_def
  new_SecretTextCredentialRequest_def new_KubeconfigCredentialRequest_def
  new_ProjectCredential_def IsNull_def credentialType_of_def

lemma trace_after [simp]: "trace (after ev res) = ev # trace res"
  by (simp add: after_def)

lemma answer_after [simp]: "answer (after ev res) = answer res"
  by (simp add: after_def)

lemma world_after [simp]: "world (after ev res) = world res"
  by (simp add: after_def)

lemma trace_reply [simp]: "trace (reply a w) = []"
  by (simp add: reply_def)

lemma answer_reply [simp]: "answer (reply a w) = a"
  by (simp add: reply_def)

lemma world_reply [simp]: "world (reply a w) = w"
  by (simp add: reply_def)

subsection \<open>C4: a duplicate id is a conflict and changes nothing\<close>

text \<open>
  C4. Whenever the existence check of a create request returns a credential, the
  handler answers 409, makes no call that changes the remote store and no call on the
  local store, and leaves the state as it found it.
\<close>

theorem C4_duplicate_id_conflict:
  fixes w :: "'a"
  assumes "Jenkins (CallGetCredentialInFolder d i p) True err
             \<in> set (trace (CreateCredentialHandler s r w))"
  shows "StatusCode (answer (CreateCredentialHandler s r w)) = Some StatusConflict
         \<and> (\<forall>ev \<in> set (trace (CreateCredentialHandler s r w)).
               \<not> is_remote_change ev \<and> \<not> is_db ev)
         \<and> world (CreateCredentialHandler s r w) = w"
proof -
  define P where "P res \<longleftrightarrow>
    (Jenkins (CallGetCredentialInFolder d i p) True err \<in> set (trace res) \<longrightarrow>
       StatusCode (answer res) = Some StatusConflict
       \<and> (\<forall>ev \<in> set (trace res). \<not> is_remote_change ev \<and> \<not> is_db ev)
       \<and> world res = w)" for res :: "'a result"
  have "P (CreateCredentialHandler s r w)"
    apply (simp add: CreateCredentialHandler_def Let_def split: sum.split option.split)
    apply (intro conjI allI impI)
    apply (simp_all add: create_defs Let_def split: sum.split option.split prod.split)
    apply (simp_all add: P_def changes_remote_def)
    done
  with assms show ?thesis unfolding P_def by blast
qed

theorem C4_duplicate_id_conflict_witness:
  "Jenkins (CallGetCredentialInFolder ''_'' ''key1'' ''p1'') True None
     \<in> set (trace (CreateCredentialHandler (demo no_faults)
                      (demo_request ''alice'' ''ssh;_;key1'') demo_store_key1))
   \<and> answer (CreateCredentialHandler (demo no_faults)
               (demo_request ''alice'' ''ssh;_;key1'') demo_store_key1)
       = RestError (Errorf ''credential id [key1] has been used'') 409
   \<and> StatusCode (answer (CreateCredentialHandler (demo no_faults)
               (demo_request ''alice'' ''ssh;_;key1'') demo_store_key1)) = Some StatusConflict
   \<and> world (CreateCredentialHandler (demo no_faults)
               (demo_request ''alice'' ''ssh;_;key1'') demo_store_key1) = demo_store_key1"
proof -
  have ev: "Jenkins (CallGetCredentialInFolder ''_'' ''key1'' ''p1'') True None
     \<in> set (trace (CreateCredentialHandler (demo no_faults)
                      (demo_request ''alice'' ''ssh;_;key1'') demo_store_key1))"
    by (simp add: create_defs demo_defs store_defs credential_type_defs Let_def)
  have ans: "answer (CreateCredentialHandler (demo no_faults)
               (demo_request ''alice'' ''ssh;_;key1'') demo_store_key1)
       = RestError (Errorf ''credential id [key1] has been used'') 409"
    by (simp add: create_defs demo_defs store_defs credential_type_defs status_defs Let_def)
  from C4_duplicate_id_conflict [OF ev] ev ans show ?thesis by simp
qed

subsection \<open>C6: a failed insertion is reported, not rolled back\<close>

text \<open>
  C6. When the remote creation of a create request succeeded and the insertion of the
  ownership row then failed, the failed insertion is the last call the handler makes
  (no remote call follows the creation), the error of the insertion is the answer,
  and the state left is the one the creation produced, as the failed insertion
  left it.
\<close>

theorem C6_failed_insertion_not_rolled_back:
  fixes w :: "'a"
  assumes "creates c"
    and "Jenkins c v None \<in> set (trace (CreateCredentialHandler s r w))"
    and "Db (CallInsertInto row) (Some e) \<in> set (trace (CreateCredentialHandler s r w))"
  shows "following (Jenkins c v None) (trace (CreateCredentialHandler s r w))
           = [Db (CallInsertInto row) (Some e)]
         \<and> answer (CreateCredentialHandler s r w) = RestError e (GetJenkinsStatusCode s e)
         \<and> world (CreateCredentialHandler s r w)
           = snd (InsertInto s row (after_creation s c w))"
proof -
  define P where "P res \<longleftrightarrow>
    (creates c \<and> Jenkins c v None \<in> set (trace res)
       \<and> Db (CallInsertInto row) (Some e) \<in> set (trace res)
     \<longrightarrow> following (Jenkins c v None) (trace res) = [Db (CallInsertInto row) (Some e)]
         \<and> answer res = RestError e (GetJenkinsStatusCode s e)
         \<and> world res = snd (InsertInto s row (after_creation s c w)))" for res :: "'a result"
  have "P (CreateCredentialHandler s r w)"
    apply (simp add: CreateCredentialHandler_def Let_def split: sum.split option.split)
    apply (intro conjI allI impI)
    apply (simp_all add: create_defs Let_def split: sum.split option.split prod.split)
    apply (auto simp add: P_def following_def)
    done
  with assms show ?thesis unfolding P_def by blast
qed

theorem C6_failed_insertion_not_rolled_back_witness:
  "answer (CreateCredentialHandler (demo store_fails) (demo_request ''alice'' ''ssh;_;key1'')
             demo_store)
     = RestError (Errorf ''connection refused'') 500
   \<and> following (Jenkins (CallCreateSshCredentialInFolder ''_'' ''key1'' [] [] [] [] ''p1'') True None)
       (trace (CreateCredentialHandler (demo store_fails) (demo_request ''alice'' ''ssh;_;key1'')
                 demo_store))
     = [Db (CallInsertInto \<lparr>pc_ProjectId = ''p1'', pc_CredentialId = ''key1'', pc_Domain = ''_'',
                             pc_Creator = ''alice'', pc_CreateTime = 7\<rparr>)
          (Some (Errorf ''connection refused''))]
   \<and> jenkins (world (CreateCredentialHandler (demo store_fails)
                       (demo_request ''alice'' ''ssh;_;key1'') demo_store))
     = jenkins demo_store_key1
   \<and> project_credential (world (CreateCredentialHandler (demo store_fails)
                       (demo_request ''alice'' ''ssh;_;key1'') demo_store)) = []"
proof -
  let ?R = "CreateCredentialHandler (demo store_fails) (demo_request ''alice'' ''ssh;_;key1'')
              demo_store"
  let ?c = "CallCreateSshCredentialInFolder ''_'' ''key1'' [] [] [] [] ''p1''"
  let ?row = "\<lparr>pc_ProjectId = ''p1'', pc_CredentialId = ''key1'', pc_Domain = ''_'',
               pc_Creator = ''alice'', pc_CreateTime = 7\<rparr>"
  have tr: "trace ?R =
     [DecodeJsonPayload None,
      CheckProjectUserInRole ''alice'' ''p1'' [''owner'', ''maintainer''] None,
      MapstructureDecode None,
      Jenkins (CallGetCredentialInFolder ''_'' ''key1'' ''p1'') False (Some (Errorf ''404'')),
      Jenkins ?c True None,
      Db (CallInsertInto ?row) (Some (Errorf ''connection refused''))]"
    by (simp add: create_defs demo_defs store_defs credential_type_defs status_defs Let_def)
  have c: "creates ?c" by simp
  have a: "Jenkins ?c True None \<in> set (trace ?R)" by (simp add: tr)
  have b: "Db (CallInsertInto ?row) (Some (Errorf ''connection refused'')) \<in> set (trace ?R)"
    by (simp add: tr)
  have st: "GetJenkinsStatusCode (demo store_fails) (Errorf ''connection refused'') = 500"
    by (simp add: demo_defs store_defs)
  have w: "snd (InsertInto (demo store_fails) ?row (after_creation (demo store_fails) ?c demo_store))
             = demo_store_key1\<lparr>project_credential := []\<rparr>"
    by (simp add: demo_defs store_defs credential_type_defs)
  from C6_failed_insertion_not_rolled_back [OF c a b] st w show ?thesis
    by (simp add: demo_store_key1_def)
qed

subsection \<open>C9: a missing ownership row does not fail delete and get\<close>

lemma Get_respond_no_db [simp]:
  "Db c e \<notin> set (trace (Get_respond s g d i p cr pc w))"
  by (simp add: Get_respond_def Let_def split: sum.split option.split prod.split)



subsection \<open>C2: ownership rows follow the remote calls\<close>









subsection \<open>C10: the domain of the row a delete request removes\<close>

text \<open>
  C10. The local deletion of a delete request is on the rows of the request's project
  id and credential id whose domain column is \<^verbatim>\<open>_\<close> when the body's domain is empty,
  and is the body's domain otherwise.
\<close>

theorem C10_deleted_row_domain:
  fixes w :: "'a"
  assumes "Db (CallDeleteFrom cond) err \<in> set (trace (DeleteCredentialHandler s r w))"
    and "DecodeDeleteCredentialRequest s r = Inr request"
  shows "holds cond row \<longleftrightarrow>
           pc_ProjectId row = PathParam r ''id''
           \<and> pc_CredentialId row = PathParam r ''cid''
           \<and> pc_Domain row = (if IsNull (del_Domain request) then ''_'' else del_Domain request)"
proof -
  have "Db (CallDeleteFrom cond) err \<in> set (trace (DeleteCredentialHandler s r w)) \<longrightarrow>
     (case DecodeDeleteCredentialRequest s r of
        Inl e \<Rightarrow> False
      | Inr request \<Rightarrow>
          cond = And [Eq ProjectIdColumn (PathParam r ''id''),
                      Eq ProjectCredentialIdColumn (PathParam r ''cid''),
                      Eq ProjectCredentialDomainColumn
                        (if IsNull (del_Domain request) then ''_'' else del_Domain request)])"
    by (simp add: delete_defs Let_def split: sum.split option.split prod.split)
  with assms have "cond = And [Eq ProjectIdColumn (PathParam r ''id''),
                      Eq ProjectCredentialIdColumn (PathParam r ''cid''),
                      Eq ProjectCredentialDomainColumn
                        (if IsNull (del_Domain request) then ''_'' else del_Domain request)]"
    by simp
  then show ?thesis by auto
qed

theorem C10_deleted_row_domain_witness:
  "Db (CallDeleteFrom (And [Eq ProjectIdColumn ''p1'', Eq ProjectCredentialIdColumn ''key1'',
                             Eq ProjectCredentialDomainColumn ''_''])) None
     \<in> set (trace (DeleteCredentialHandler (demo no_faults) (demo_request ''alice'' [])
                      demo_store_global))
   \<and> DecodeDeleteCredentialRequest (demo no_faults) (demo_request ''alice'' [])
       = Inr \<lparr>del_Domain = []\<rparr>
   \<and> holds (And [Eq ProjectIdColumn ''p1'', Eq ProjectCredentialIdColumn ''key1'',
                 Eq ProjectCredentialDomainColumn ''_''])
        \<lparr>pc_ProjectId = ''p1'', pc_CredentialId = ''key1'', pc_Domain = ''_'',
         pc_Creator = ''alice'', pc_CreateTime = 7\<rparr>
   \<and> \<not> holds (And [Eq ProjectIdColumn ''p1'', Eq ProjectCredentialIdColumn ''key1'',
                 Eq ProjectCredentialDomainColumn ''_''])
        \<lparr>pc_ProjectId = ''p1'', pc_CredentialId = ''key1'', pc_Domain = [],
         pc_Creator = ''alice'', pc_CreateTime = 8\<rparr>
   \<and> project_credential (world (DeleteCredentialHandler (demo no_faults)
         (demo_request ''alice'' []) demo_store_global))
       = [\<lparr>pc_ProjectId = ''p1'', pc_CredentialId = ''key1'', pc_Domain = [],
           pc_Creator = ''alice'', pc_CreateTime = 8\<rparr>]"
proof -
  let ?D = "DeleteCredentialHandler (demo no_faults) (demo_request ''alice'' []) demo_store_global"
  let ?cond = "And [Eq ProjectIdColumn ''p1'', Eq ProjectCredentialIdColumn ''key1'',
                    Eq ProjectCredentialDomainColumn ''_'']"
  have ev: "Db (CallDeleteFrom ?cond) None \<in> set (trace ?D)"
    by (simp add: delete_defs demo_defs store_defs demo_store_global_def Let_def)
  have dec: "DecodeDeleteCredentialRequest (demo no_faults) (demo_request ''alice'' [])
               = Inr \<lparr>del_Domain = []\<rparr>"
    by (simp add: demo_defs store_defs)
  have rows: "project_credential (world ?D)
       = [\<lparr>pc_ProjectId = ''p1'', pc_CredentialId = ''key1'', pc_Domain = [],
           pc_Creator = ''alice'', pc_CreateTime = 8\<rparr>]"
    by (simp add: delete_defs demo_defs store_defs demo_store_global_def Let_def)
  have q: "PathParam (demo_request ''alice'' []) ''id'' = ''p1''"
    "PathParam (demo_request ''alice'' []) ''cid'' = ''key1''"
    by (simp_all add: demo_defs)
  from C10_deleted_row_domain [OF ev dec,
      of "\<lparr>pc_ProjectId = ''p1'', pc_CredentialId = ''key1'', pc_Domain = ''_'',
          pc_Creator = ''alice'', pc_CreateTime = 7\<rparr>"]
    C10_deleted_row_domain [OF ev dec,
      of "\<lparr>pc_ProjectId = ''p1'', pc_CredentialId = ''key1'', pc_Domain = [],
          pc_Creator = ''alice'', pc_CreateTime = 8\<rparr>"]
    ev dec rows
  show ?thesis by (simp add: q IsNull_def)
qed

subsection \<open>C3: the status of a failed remote call\<close>

lemma remote_failure_answer:
  fixes w :: "'a"
  shows "Jenkins c v (Some e) \<in> set (trace (serve h s r w)) \<longrightarrow>
        (\<not> (h = CreateCredential \<and> is_existence_check c) \<and> \<not> is_ssh_update c \<longrightarrow>
           answer (serve h s r w) = RestError e (GetJenkinsStatusCode s e))
        \<and> (h = CreateCredential \<and> is_existence_check c \<and> \<not> v
             \<and> GetJenkinsStatusCode s e \<noteq> StatusNotFound \<longrightarrow>
           answer (serve h s r w) = RestError e StatusBadRequest)"
proof -
  define P where "P h' res \<longleftrightarrow>
     (Jenkins c v (Some e) \<in> set (trace res) \<longrightarrow>
        (\<not> (h' = CreateCredential \<and> is_existence_check c) \<and> \<not> is_ssh_update c \<longrightarrow>
           answer res = RestError e (GetJenkinsStatusCode s e))
        \<and> (h' = CreateCredential \<and> is_existence_check c \<and> \<not> v
             \<and> GetJenkinsStatusCode s e \<noteq> StatusNotFound \<longrightarrow>
           answer res = RestError e StatusBadRequest))" for h' and res :: "'a result"
  have c: "P CreateCredential (CreateCredentialHandler s r w)"
    apply (simp add: CreateCredentialHandler_def Let_def split: sum.split option.split)
    apply (intro conjI allI impI)
    apply (simp_all add: create_defs Let_def split: sum.split option.split prod.split)
    apply (auto simp add: P_def)
    done
  have u: "P UpdateCredential (UpdateCredentialHandler s r w)"
    apply (simp add: UpdateCredentialHandler_def Let_def split: sum.split option.split prod.split)
    apply (intro conjI allI impI)
    apply (simp_all add: update_defs Let_def split: sum.split option.split prod.split)
    apply (auto simp add: P_def)
    done
  have d: "P DeleteCredential (DeleteCredentialHandler s r w)"
    apply (simp add: delete_defs Let_def split: sum.split option.split prod.split)
    apply (auto simp add: P_def)
    done
  have g: "P GetCredential (GetCredentialHandler s r w)"
    apply (simp add: get_defs Let_def split: sum.split option.split prod.split)
    apply (auto simp add: P_def)
    done
  have l: "P GetCredentials (GetCredentialsHandler s r w)"
    apply (simp add: list_defs Let_def split: sum.split option.split prod.split)
    apply (auto simp add: P_def)
    done
  from c u d g l show ?thesis unfolding P_def by (cases h) auto
qed

text \<open>
  C3, as the code has it. When a remote call of any endpoint returns an error, the
  answer is that error with the status \<open>GetJenkinsStatusCode\<close> gives it, except in the
  existence check of the create handler, where an error whose status is not 404 is
  answered 400 (and one whose status is 404 means the id is free). The update of an
  SSH credential is left out of the statement.
\<close>

theorem C3_remote_failure_status:
  fixes w :: "'a"
  assumes "Jenkins c v (Some e) \<in> set (trace (serve h s r w))"
  shows "(\<not> (h = CreateCredential \<and> is_existence_check c) \<and> \<not> is_ssh_update c \<longrightarrow>
           answer (serve h s r w) = RestError e (GetJenkinsStatusCode s e))
        \<and> (h = CreateCredential \<and> is_existence_check c \<and> \<not> v
             \<and> GetJenkinsStatusCode s e \<noteq> StatusNotFound \<longrightarrow>
           answer (serve h s r w) = RestError e StatusBadRequest)"
  using assms remote_failure_answer [of c v e h s r w] by blast

theorem C3_remote_failure_status_witness:
  "Jenkins (CallDeleteCredentialInFolder ''_'' ''key1'' ''p1'') False (Some (Errorf ''403''))
     \<in> set (trace (serve DeleteCredential (demo changes_refused) (demo_request ''alice'' ''_'')
                      demo_store_key1))
   \<and> answer (serve DeleteCredential (demo changes_refused) (demo_request ''alice'' ''_'')
               demo_store_key1)
     = RestError (Errorf ''403'') 403
   \<and> Jenkins (CallGetCredentialInFolder ''_'' ''key1'' ''p1'') False (Some (Errorf ''500''))
     \<in> set (trace (serve CreateCredential (demo existence_check_fails)
                      (demo_request ''alice'' ''ssh;_;key1'') demo_store))
   \<and> answer (serve CreateCredential (demo existence_check_fails)
               (demo_request ''alice'' ''ssh;_;key1'') demo_store)
     = RestError (Errorf ''500'') 400"
proof -
  let ?D = "serve DeleteCredential (demo changes_refused) (demo_request ''alice'' ''_'')
              demo_store_key1"
  let ?C = "serve CreateCredential (demo existence_check_fails)
              (demo_request ''alice'' ''ssh;_;key1'') demo_store"
  have d: "Jenkins (CallDeleteCredentialInFolder ''_'' ''key1'' ''p1'') False
             (Some (Errorf ''403'')) \<in> set (trace ?D)"
    by (simp add: delete_defs demo_defs store_defs changes_refused_def changes_remote_def Let_def)
  have c: "Jenkins (CallGetCredentialInFolder ''_'' ''key1'' ''p1'') False
             (Some (Errorf ''500'')) \<in> set (trace ?C)"
    by (simp add: create_defs demo_defs store_defs credential_type_defs Let_def)
  have sd: "GetJenkinsStatusCode (demo changes_refused) (Errorf ''403'') = 403"
    by (simp add: demo_defs store_defs)
  have sc: "GetJenkinsStatusCode (demo existence_check_fails) (Errorf ''500'') = 500"
    by (simp add: demo_defs store_defs)
  from C3_remote_failure_status [OF d] C3_remote_failure_status [OF c] d c sd sc
  show ?thesis by (simp add: status_defs)
qed

text \<open>
  C3 as stated fails: the existence check of a create request fails with status 500,
  and the answer carries 400.
\<close>

theorem C3_existence_check_failure_is_400:
  "Jenkins (CallGetCredentialInFolder ''_'' ''key1'' ''p1'') False (Some (Errorf ''500''))
     \<in> set (trace (CreateCredentialHandler (demo existence_check_fails)
                      (demo_request ''alice'' ''ssh;_;key1'') demo_store))
   \<and> GetJenkinsStatusCode (demo existence_check_fails) (Errorf ''500'') = 500
   \<and> answer (CreateCredentialHandler (demo existence_check_fails)
               (demo_request ''alice'' ''ssh;_;key1'') demo_store)
     = RestError (Errorf ''500'') 400"
  by (simp add: create_defs demo_defs store_defs credential_type_defs status_defs Let_def)

text \<open>
  The update of an SSH credential answers 500 whatever the remote status, where the
  three other cases answer the remote status.
\<close>

lemma update_ssh_failure_is_500:
  "answer (UpdateCredentialHandler (demo changes_refused) (demo_request ''alice'' ''ssh;_;key1'')
             demo_store_key1)
     = RestError (Errorf ''403'') 500
   \<and> GetJenkinsStatusCode (demo changes_refused) (Errorf ''403'') = 403"
  by (simp add: update_defs demo_defs store_defs credential_type_defs status_defs
        changes_refused_def changes_remote_def Let_def)

subsection \<open>C7: the status of decode and authorization failures\<close>

lemma decode_and_authorization_answer:
  fixes w :: "'a"
  shows "(body_error h s r = Some e \<longrightarrow> answer (serve h s r w) = RestError e StatusBadRequest)
       \<and> (MapstructureDecode (Some e) \<in> set (trace (serve h s r w)) \<longrightarrow>
            answer (serve h s r w) = RestError e StatusBadRequest)
       \<and> (body_error h s r = None
            \<and> checkProjectUserInRole s (GetUserNameFromRequest s r) (PathParam r ''id'')
                [ProjectOwner, ProjectMaintainer] w = Some e \<longrightarrow>
            answer (serve h s r w) = RestError e StatusForbidden)"
proof -
  define P where "P h' res \<longleftrightarrow>
         (body_error h' s r = Some e \<longrightarrow> answer res = RestError e StatusBadRequest)
       \<and> (MapstructureDecode (Some e) \<in> set (trace res) \<longrightarrow>
            answer res = RestError e StatusBadRequest)
       \<and> (body_error h' s r = None
            \<and> checkProjectUserInRole s (GetUserNameFromRequest s r) (PathParam r ''id'')
                [ProjectOwner, ProjectMaintainer] w = Some e \<longrightarrow>
            answer res = RestError e StatusForbidden)" for h' and res :: "'a result"
  have c: "P CreateCredential (CreateCredentialHandler s r w)"
    apply (simp add: CreateCredentialHandler_def Let_def split: sum.split option.split)
    apply (intro conjI allI impI)
    apply (simp_all add: create_defs Let_def split: sum.split option.split prod.split)
    apply (auto simp add: P_def)
    done
  have u: "P UpdateCredential (UpdateCredentialHandler s r w)"
    apply (simp add: UpdateCredentialHandler_def Let_def split: sum.split option.split prod.split)
    apply (intro conjI allI impI)
    apply (simp_all add: update_defs Let_def split: sum.split option.split prod.split)
    apply (auto simp add: P_def)
    done
  have d: "P DeleteCredential (DeleteCredentialHandler s r w)"
    apply (simp add: delete_defs Let_def split: sum.split option.split prod.split)
    apply (auto simp add: P_def)
    done
  have g: "P GetCredential (GetCredentialHandler s r w)"
    apply (simp add: get_defs Let_def split: sum.split option.split prod.split)
    apply (auto simp add: P_def)
    done
  have l: "P GetCredentials (GetCredentialsHandler s r w)"
    apply (simp add: list_defs Let_def split: sum.split option.split prod.split)
    apply (auto simp add: P_def)
    done
  from c u d g l show ?thesis unfolding P_def by (cases h) auto
qed

text \<open>
  C7, as the code has it. For every endpoint: a request body that fails to decode is
  answered 400, and so is a type-specific payload that fails to decode; a caller who
  is in neither role is answered 403 when the request body decoded (create, update and
  delete decode the body before they check the role; get and list read no body).
\<close>

theorem C7_decode_400_authorization_403:
  fixes w :: "'a"
  shows "(body_error h s r = Some e \<longrightarrow> answer (serve h s r w) = RestError e StatusBadRequest)
       \<and> (MapstructureDecode (Some e) \<in> set (trace (serve h s r w)) \<longrightarrow>
            answer (serve h s r w) = RestError e StatusBadRequest)
       \<and> (body_error h s r = None
            \<and> checkProjectUserInRole s (GetUserNameFromRequest s r) (PathParam r ''id'')
                [ProjectOwner, ProjectMaintainer] w = Some e \<longrightarrow>
            answer (serve h s r w) = RestError e StatusForbidden)"
  by (rule decode_and_authorization_answer)

theorem C7_decode_400_authorization_403_witness:
  "body_error CreateCredential (demo no_faults) (demo_request ''alice'' ''ssh;_'')
     = Some (Errorf ''invalid character'')
   \<and> answer (serve CreateCredential (demo no_faults) (demo_request ''alice'' ''ssh;_'') demo_store)
     = RestError (Errorf ''invalid character'') 400
   \<and> MapstructureDecode (Some (Errorf ''expected type string''))
     \<in> set (trace (serve CreateCredential (demo no_faults) (demo_request ''alice'' ''ssh;_;0'')
                      demo_store))
   \<and> answer (serve CreateCredential (demo no_faults) (demo_request ''alice'' ''ssh;_;0'')
               demo_store)
     = RestError (Errorf ''expected type string'') 400
   \<and> body_error DeleteCredential (demo no_faults) (demo_request ''bob'' ''_'') = None
   \<and> checkProjectUserInRole (demo no_faults) ''bob'' ''p1'' [ProjectOwner, ProjectMaintainer]
       demo_store_key1 = Some (Errorf ''forbidden'')
   \<and> answer (serve DeleteCredential (demo no_faults) (demo_request ''bob'' ''_'') demo_store_key1)
     = RestError (Errorf ''forbidden'') 403"
proof -
  have 1: "body_error CreateCredential (demo no_faults) (demo_request ''alice'' ''ssh;_'')
             = Some (Errorf ''invalid character'')"
    by (simp add: demo_defs store_defs)
  have 2: "MapstructureDecode (Some (Errorf ''expected type string''))
     \<in> set (trace (serve CreateCredential (demo no_faults) (demo_request ''alice'' ''ssh;_;0'')
                      demo_store))"
    by (simp add: create_defs demo_defs store_defs credential_type_defs Let_def)
  have 3: "body_error DeleteCredential (demo no_faults) (demo_request ''bob'' ''_'') = None"
    by (simp add: demo_defs store_defs)
  have 4: "checkProjectUserInRole (demo no_faults) ''bob'' ''p1''
             [ProjectOwner, ProjectMaintainer] demo_store_key1 = Some (Errorf ''forbidden'')"
    by (simp add: demo_defs store_defs)
  have q: "GetUserNameFromRequest (demo no_faults) (demo_request ''bob'' ''_'') = ''bob''"
    "PathParam (demo_request ''bob'' ''_'') ''id'' = ''p1''"
    by (simp_all add: demo_defs store_defs)
  from C7_decode_400_authorization_403 [where h = CreateCredential and s = "demo no_faults"
         and r = "demo_request ''alice'' ''ssh;_''" and w = demo_store
         and e = "Errorf ''invalid character''"]
    C7_decode_400_authorization_403 [where h = CreateCredential and s = "demo no_faults"
         and r = "demo_request ''alice'' ''ssh;_;0''" and w = demo_store
         and e = "Errorf ''expected type string''"]
    C7_decode_400_authorization_403 [where h = DeleteCredential and s = "demo no_faults"
         and r = "demo_request ''bob'' ''_''" and w = demo_store_key1
         and e = "Errorf ''forbidden''"]
    1 2 3 4
  show ?thesis by (simp add: q status_defs)
qed

text \<open>
  C7 as stated fails: bob is in neither role, his create request has a body that does
  not decode, and the answer is 400, not 403.
\<close>

theorem C7_undecodable_body_of_outsider_is_400:
  "checkProjectUserInRole (demo no_faults)
       (GetUserNameFromRequest (demo no_faults) (demo_request ''bob'' ''ssh;_''))
       (PathParam (demo_request ''bob'' ''ssh;_'') ''id'')
       [ProjectOwner, ProjectMaintainer] demo_store
     = Some (Errorf ''forbidden'')
   \<and> StatusCode (answer (CreateCredentialHandler (demo no_faults) (demo_request ''bob'' ''ssh;_'')
                           demo_store))
     = Some 400"
  by (simp add: create_defs demo_defs store_defs status_defs Let_def)

subsection \<open>C5: the order and the number of the steps\<close>

lemma steps_in_order:
  fixes w :: "'a"
  shows "guarded (trace (serve h s r w))
       \<and> list_all (\<lambda>ev. phase ev = 0) (takeWhile (\<lambda>ev. phase ev \<noteq> 1) (trace (serve h s r w)))
       \<and> length (filter is_jenkins (trace (serve h s r w))) \<le> 2
       \<and> length (filter is_remote_change (trace (serve h s r w))) \<le> 1
       \<and> length (filter is_db (trace (serve h s r w))) \<le> 1
       \<and> (h \<noteq> UpdateCredential \<and> h \<noteq> GetCredential \<longrightarrow>
            sorted (map phase (trace (serve h s r w))))"
proof -
  define P where "P h' res \<longleftrightarrow>
         guarded (trace res)
       \<and> list_all (\<lambda>ev. phase ev = 0) (takeWhile (\<lambda>ev. phase ev \<noteq> 1) (trace res))
       \<and> length (filter is_jenkins (trace res)) \<le> 2
       \<and> length (filter is_remote_change (trace res)) \<le> 1
       \<and> length (filter is_db (trace res)) \<le> 1
       \<and> (h' \<noteq> UpdateCredential \<and> h' \<noteq> GetCredential \<longrightarrow> sorted (map phase (trace res)))"
    for h' and res :: "'a result"
  have c: "P CreateCredential (CreateCredentialHandler s r w)"
    apply (simp add: CreateCredentialHandler_def Let_def split: sum.split option.split)
    apply (intro conjI allI impI)
    apply (simp_all add: create_defs Let_def split: sum.split option.split prod.split)
    apply (simp_all add: P_def changes_remote_def)
    done
  have u: "P UpdateCredential (UpdateCredentialHandler s r w)"
    apply (simp add: UpdateCredentialHandler_def Let_def split: sum.split option.split prod.split)
    apply (intro conjI allI impI)
    apply (simp_all add: update_defs Let_def split: sum.split option.split prod.split)
    apply (simp_all add: P_def changes_remote_def)
    done
  have d: "P DeleteCredential (DeleteCredentialHandler s r w)"
    apply (simp add: delete_defs Let_def split: sum.split option.split prod.split)
    apply (simp_all add: P_def changes_remote_def)
    done
  have g: "P GetCredential (GetCredentialHandler s r w)"
    apply (simp add: get_defs Let_def split: sum.split option.split prod.split)
    apply (simp_all add: P_def changes_remote_def)
    done
  have l: "P GetCredentials (GetCredentialsHandler s r w)"
    apply (simp add: list_defs Let_def split: sum.split option.split prod.split)
    apply (simp_all add: P_def changes_remote_def)
    done
  from c u d g l show ?thesis unfolding P_def by (cases h) auto
qed

text \<open>
  C5, as the code has it. Every endpoint checks the caller's role before any remote
  call and any local-store call, only the decoding of the request body comes before
  the check, and no such call is made unless the check succeeded. A request makes at
  most two remote calls (the create handler checks for the id and then creates, the
  update handler fetches and then updates, the get handler fetches and then reads
  the content), at most one of them changes the remote store, and at most one call
  is made on the local store. In the create, delete and list handlers the steps come
  in the order: decode the request, authorize, decode the payload, remote calls,
  local store.
\<close>

theorem C5_authorization_first_and_bounded_calls:
  fixes w :: "'a"
  shows "guarded (trace (serve h s r w))
       \<and> list_all (\<lambda>ev. phase ev = 0) (takeWhile (\<lambda>ev. phase ev \<noteq> 1) (trace (serve h s r w)))
       \<and> length (filter is_jenkins (trace (serve h s r w))) \<le> 2
       \<and> length (filter is_remote_change (trace (serve h s r w))) \<le> 1
       \<and> length (filter is_db (trace (serve h s r w))) \<le> 1
       \<and> (h \<noteq> UpdateCredential \<and> h \<noteq> GetCredential \<longrightarrow>
            sorted (map phase (trace (serve h s r w))))"
  by (rule steps_in_order)

theorem C5_authorization_first_and_bounded_calls_witness:
  "map phase (trace (serve CreateCredential (demo no_faults)
                       (demo_request ''alice'' ''ssh;_;key1'') demo_store))
     = [0, 1, 2, 3, 3, 4]
   \<and> sorted (map phase (trace (serve CreateCredential (demo no_faults)
                                  (demo_request ''alice'' ''ssh;_;key1'') demo_store)))
   \<and> guarded (trace (serve CreateCredential (demo no_faults)
                        (demo_request ''alice'' ''ssh;_;key1'') demo_store))"
proof -
  have "map phase (trace (serve CreateCredential (demo no_faults)
                       (demo_request ''alice'' ''ssh;_;key1'') demo_store))
     = [0, 1, 2, 3, 3, 4]"
    by (simp add: create_defs demo_defs store_defs credential_type_defs status_defs Let_def)
  with C5_authorization_first_and_bounded_calls [where h = CreateCredential
         and s = "demo no_faults" and r = "demo_request ''alice'' ''ssh;_;key1''"
         and w = demo_store]
  show ?thesis by simp
qed

text \<open>
  C5 as stated fails: a create request that succeeds makes two calls on the remote
  API, and a get request has no body to decode.
\<close>

theorem C5_create_makes_two_remote_calls:
  "filter is_jenkins
     (trace (CreateCredentialHandler (demo no_faults) (demo_request ''alice'' ''ssh;_;key1'')
               demo_store))
     = [Jenkins (CallGetCredentialInFolder ''_'' ''key1'' ''p1'') False (Some (Errorf ''404'')),
        Jenkins (CallCreateSshCredentialInFolder ''_'' ''key1'' [] [] [] [] ''p1'') True None]
   \<and> trace (GetCredentialHandler (demo no_faults)
              ((demo_request ''alice'' [])\<lparr>Query := [(''domain'', ''_'')]\<rparr>) demo_store_key1)
     = [CheckProjectUserInRole ''alice'' ''p1'' [''owner'', ''maintainer''] None,
        Jenkins (CallGetCredentialInFolder ''_'' ''key1'' ''p1'') True None,
        Db (CallLoadOne (And [Eq ProjectIdColumn ''p1'', Eq ProjectCredentialIdColumn ''key1'',
                              Eq ProjectCredentialDomainColumn ''_''])) None]"
  by (simp add: create_defs get_defs demo_defs store_defs credential_type_defs status_defs Let_def)

subsection \<open>C8: the update handler dispatches on the remote type\<close>

lemma retyped_fields [simp]:
  "GetUserNameFromRequest (retyped t s) = GetUserNameFromRequest s"
  "checkProjectUserInRole (retyped t s) = checkProjectUserInRole s"
  "GetCredentialInFolder (retyped t s) = GetCredentialInFolder s"
  "GetJenkinsStatusCode (retyped t s) = GetJenkinsStatusCode s"
  "credentialType_of (retyped t s) = credentialType_of s"
  "DecodeCredentialRequest (retyped t s) r =
     (case DecodeCredentialRequest s r of
        Inl err \<Rightarrow> Inl err
      | Inr request \<Rightarrow> Inr (request\<lparr>req_Type := t\<rparr>))"
  by (simp_all add: retyped_def credentialType_of_def fun_eq_iff)

lemma retyped_cases [simp]:
  "Update_UsernamePassword (retyped t s) (request\<lparr>req_Type := t\<rparr>) p c w
     = Update_UsernamePassword s request p c w"
  "Update_Ssh (retyped t s) (request\<lparr>req_Type := t\<rparr>) p c w = Update_Ssh s request p c w"
  "Update_SecretText (retyped t s) (request\<lparr>req_Type := t\<rparr>) p c w
     = Update_SecretText s request p c w"
  "Update_Kubeconfig (retyped t s) (request\<lparr>req_Type := t\<rparr>) p c w
     = Update_Kubeconfig s request p c w"
  by (simp_all add: retyped_def Update_UsernamePassword_def Update_Ssh_def
        Update_SecretText_def Update_Kubeconfig_def
      split: sum.split prod.split option.split)

lemma update_ignores_request_type:
  "UpdateCredentialHandler (retyped t s) r w = UpdateCredentialHandler s r w"
  by (simp add: UpdateCredentialHandler_def Let_def split: sum.split prod.split option.split)

lemma update_dispatch:
  fixes w :: "'a"
  shows "Jenkins (CallGetCredentialInFolder d i p) v None
           \<in> set (trace (UpdateCredentialHandler s r w)) \<longrightarrow>
         (case fst (GetCredentialInFolder s d i p w) of
            None \<Rightarrow> answer (UpdateCredentialHandler s r w) = Panic
          | Some jc \<Rightarrow>
              list_all (updates_as (credentialType_of s (jc_TypeName jc)))
                (trace (UpdateCredentialHandler s r w))
              \<and> (credentialType_of s (jc_TypeName jc)
                    \<notin> {CredentialTypeUsernamePassword, CredentialTypeSsh,
                        CredentialTypeSecretText, CredentialTypeKubeConfig} \<longrightarrow>
                  answer (UpdateCredentialHandler s r w)
                    = RestError (Errorf (''error unsupport credential type ''
                                   @ credentialType_of s (jc_TypeName jc))) StatusBadRequest
                  \<and> \<not> list_ex is_remote_change (trace (UpdateCredentialHandler s r w))
                  \<and> world (UpdateCredentialHandler s r w) = w))"
proof -
  define P where "P res \<longleftrightarrow>
     (Jenkins (CallGetCredentialInFolder d i p) v None \<in> set (trace res) \<longrightarrow>
         (case fst (GetCredentialInFolder s d i p w) of
            None \<Rightarrow> answer res = Panic
          | Some jc \<Rightarrow>
              list_all (updates_as (credentialType_of s (jc_TypeName jc))) (trace res)
              \<and> (credentialType_of s (jc_TypeName jc)
                    \<notin> {CredentialTypeUsernamePassword, CredentialTypeSsh,
                        CredentialTypeSecretText, CredentialTypeKubeConfig} \<longrightarrow>
                  answer res
                    = RestError (Errorf (''error unsupport credential type ''
                                   @ credentialType_of s (jc_TypeName jc))) StatusBadRequest
                  \<and> \<not> list_ex is_remote_change (trace res)
                  \<and> world res = w)))" for res :: "'a result"
  have "P (UpdateCredentialHandler s r w)"
    apply (simp add: UpdateCredentialHandler_def Let_def split: sum.split option.split prod.split)
    apply (intro conjI allI impI)
    apply (simp_all add: update_defs Let_def split: sum.split option.split prod.split)
    apply (auto simp add: P_def changes_remote_def)
    done
  then show ?thesis unfolding P_def .
qed

text \<open>
  C8. The update handler gives the same result whatever the \<^verbatim>\<open>type\<close> field of the
  request body is. Once the credential is fetched, the only update call the handler
  can make is the one for the type that \<open>CredentialTypeMap\<close> gives the remote type
  name; and when that type is none of the four, the answer is 400, no call changes
  the remote store, and the state is as it was.
\<close>

theorem C8_update_dispatches_on_remote_type:
  fixes w :: "'a"
  shows "UpdateCredentialHandler (retyped t s) r w = UpdateCredentialHandler s r w
       \<and> (Jenkins (CallGetCredentialInFolder d i p) v None
            \<in> set (trace (UpdateCredentialHandler s r w)) \<longrightarrow>
          (case fst (GetCredentialInFolder s d i p w) of
             None \<Rightarrow> answer (UpdateCredentialHandler s r w) = Panic
           | Some jc \<Rightarrow>
               list_all (updates_as (credentialType_of s (jc_TypeName jc)))
                 (trace (UpdateCredentialHandler s r w))
               \<and> (credentialType_of s (jc_TypeName jc)
                     \<notin> {CredentialTypeUsernamePassword, CredentialTypeSsh,
                         CredentialTypeSecretText, CredentialTypeKubeConfig} \<longrightarrow>
                   answer (UpdateCredentialHandler s r w)
                     = RestError (Errorf (''error unsupport credential type ''
                                    @ credentialType_of s (jc_TypeName jc))) StatusBadRequest
                   \<and> \<not> list_ex is_remote_change (trace (UpdateCredentialHandler s r w))
                   \<and> world (UpdateCredentialHandler s r w) = w)))"
  using update_ignores_request_type [of t s r w] update_dispatch [of d i p v s r w] by simp

theorem C8_update_dispatches_on_remote_type_witness:
  "Jenkins (CallGetCredentialInFolder ''_'' ''key1'' ''p1'') True None
     \<in> set (trace (UpdateCredentialHandler (demo no_faults)
                      (demo_request ''alice'' ''ssh;_;key1'') demo_store_certificate))
   \<and> answer (UpdateCredentialHandler (demo no_faults)
               (demo_request ''alice'' ''ssh;_;key1'') demo_store_certificate)
     = RestError (Errorf ''error unsupport credential type '') 400
   \<and> world (UpdateCredentialHandler (demo no_faults)
               (demo_request ''alice'' ''ssh;_;key1'') demo_store_certificate)
     = demo_store_certificate
   \<and> Jenkins (CallGetCredentialInFolder ''_'' ''key1'' ''p1'') True None
     \<in> set (trace (UpdateCredentialHandler (demo no_faults)
                      (demo_request ''alice'' ''secret_text;_;key1'') demo_store_key1))
   \<and> list_all (updates_as ''ssh'')
       (trace (UpdateCredentialHandler (demo no_faults)
                 (demo_request ''alice'' ''secret_text;_;key1'') demo_store_key1))
   \<and> Jenkins (CallUpdateSshCredentialInFolder ''_'' ''key1'' [] [] [] [] ''p1'') True None
     \<in> set (trace (UpdateCredentialHandler (demo no_faults)
                      (demo_request ''alice'' ''secret_text;_;key1'') demo_store_key1))"
proof -
  let ?U1 = "UpdateCredentialHandler (demo no_faults) (demo_request ''alice'' ''ssh;_;key1'')
               demo_store_certificate"
  let ?U2 = "UpdateCredentialHandler (demo no_faults)
               (demo_request ''alice'' ''secret_text;_;key1'') demo_store_key1"
  have t1: "trace ?U1 =
     [DecodeJsonPayload None,
      CheckProjectUserInRole ''alice'' ''p1'' [''owner'', ''maintainer''] None,
      Jenkins (CallGetCredentialInFolder ''_'' ''key1'' ''p1'') True None]"
    by (simp add: update_defs demo_defs store_defs credential_type_defs
          demo_store_certificate_def Let_def)
  have t2: "trace ?U2 =
     [DecodeJsonPayload None,
      CheckProjectUserInRole ''alice'' ''p1'' [''owner'', ''maintainer''] None,
      Jenkins (CallGetCredentialInFolder ''_'' ''key1'' ''p1'') True None,
      MapstructureDecode None,
      Jenkins (CallUpdateSshCredentialInFolder ''_'' ''key1'' [] [] [] [] ''p1'') True None]"
    by (simp add: update_defs demo_defs store_defs credential_type_defs Let_def)
  have g1: "fst (GetCredentialInFolder (demo no_faults) ''_'' ''key1'' ''p1''
                   demo_store_certificate)
              = Some \<lparr>jc_Id = ''key1'', jc_TypeName = ''certificate'', jc_Fingerprint = [],
                      jc_Description = [], jc_Domain = ''_''\<rparr>"
    by (simp add: demo_defs store_defs demo_store_certificate_def)
  have g2: "fst (GetCredentialInFolder (demo no_faults) ''_'' ''key1'' ''p1'' demo_store_key1)
              = Some \<lparr>jc_Id = ''key1'', jc_TypeName = ''ssh'', jc_Fingerprint = [],
                      jc_Description = [], jc_Domain = ''_''\<rparr>"
    by (simp add: demo_defs store_defs)
  have c1: "credentialType_of (demo no_faults) ''certificate'' = []"
    by (simp add: demo_defs store_defs credential_type_defs)
  have c2: "credentialType_of (demo no_faults) ''ssh'' = ''ssh''"
    by (simp add: demo_defs store_defs credential_type_defs)
  have e1: "Jenkins (CallGetCredentialInFolder ''_'' ''key1'' ''p1'') True None \<in> set (trace ?U1)"
    by (simp add: t1)
  have e2: "Jenkins (CallGetCredentialInFolder ''_'' ''key1'' ''p1'') True None \<in> set (trace ?U2)"
    by (simp add: t2)
  from C8_update_dispatches_on_remote_type [where s = "demo no_faults"
         and r = "demo_request ''alice'' ''ssh;_;key1''" and w = demo_store_certificate
         and d = "''_''" and i = "''key1''" and p = "''p1''" and v = True and t = "''ssh''"] e1
  have a1: "answer ?U1 = RestError (Errorf ''error unsupport credential type '') 400
            \<and> world ?U1 = demo_store_certificate"
    by (simp add: g1 c1 credential_type_defs status_defs)
  from C8_update_dispatches_on_remote_type [where s = "demo no_faults"
         and r = "demo_request ''alice'' ''secret_text;_;key1''" and w = demo_store_key1
         and d = "''_''" and i = "''key1''" and p = "''p1''" and v = True and t = "''ssh''"] e2
  have a2: "list_all (updates_as ''ssh'') (trace ?U2)"
    by (simp add: g2 c2)
  have u: "Jenkins (CallUpdateSshCredentialInFolder ''_'' ''key1'' [] [] [] [] ''p1'') True None
             \<in> set (trace ?U2)"
    by (simp add: t2)
  from e1 a1 e2 a2 u show ?thesis by simp
qed

subsection \<open>C1: ownership rows and remote credentials\<close>

lemma map_of_filter_other [simp]:
  "k' \<noteq> k \<Longrightarrow> map_of (filter (\<lambda>kv. fst kv \<noteq> k) xs) k' = map_of xs k'"
  by (induction xs) auto






end
